theory Spec2Isabelle
  imports Complex_Main "HOL-Library.Sublist"
begin

section \<open>Text\<close>

text \<open>
  A Python \<open>str\<close> is a sequence of code points. Texts are modelled as \<^typ>\<open>string\<close>, one
  \<^typ>\<open>char\<close> per code point, which covers the code points below 256 (ASCII and Latin-1).
  The test \<open>sub in s\<close> on two texts is \<^const>\<open>sublist\<close> \<open>sub s\<close> of the list library:
  \<open>s\<close> has a contiguous run equal to \<open>sub\<close>.

  Three symbols of the source's literals lie outside that range: the bullet U+2022, the
  check mark U+2713 and the warning sign U+26A0 U+FE0F. Each stands here as a fixed text of
  its own, spelled with the bytes of its UTF-8 form; the program only ever puts them in
  front of its own lines and looks for the check mark in its own two status texts.
\<close>

definition bullet :: string where
  "bullet = [CHR 0xE2, CHR 0x80, CHR 0xA2]"

definition check_mark :: string where
  "check_mark = [CHR 0xE2, CHR 0x9C, CHR 0x93]"

definition warning_sign :: string where
  "warning_sign = [CHR 0xE2, CHR 0x9A, CHR 0xA0, CHR 0xEF, CHR 0xB8, CHR 0x8F]"

text \<open>
  \<open>str.lower()\<close> on the code points below 256: the capital letters A to Z and the
  capital Latin-1 letters U+00C0 to U+00DE (the multiplication sign U+00D7 apart) move up by
  32, every other code point stays.
\<close>

definition lower_char :: "char \<Rightarrow> char" where
  "lower_char c =
     (let n = (of_char c :: nat)
      in if (65 \<le> n \<and> n \<le> 90) \<or> (192 \<le> n \<and> n \<le> 222 \<and> n \<noteq> 215)
         then char_of (n + 32) else c)"

definition lower :: "string \<Rightarrow> string" where
  "lower s = map lower_char s"

text \<open>
  \<open>s.count(sub)\<close> counts the occurrences of \<open>sub\<close> from left to right without overlap:
  after a match the scan resumes behind it. \<open>skip\<close> is the number of characters of the
  last match still to pass. For the empty \<open>sub\<close> Python answers \<open>len(s) + 1\<close>.
\<close>

primrec count_from :: "string \<Rightarrow> nat \<Rightarrow> string \<Rightarrow> nat" where
  "count_from sub skip [] = 0"
| "count_from sub skip (c # cs) =
     (if 0 < skip then count_from sub (skip - 1) cs
      else if prefix sub (c # cs) then 1 + count_from sub (length sub - 1) cs
      else count_from sub 0 cs)"

definition str_count :: "string \<Rightarrow> string \<Rightarrow> nat" where
  "str_count s sub = (if sub = [] then length s + 1 else count_from sub 0 s)"

text \<open>The decimal numeral of a natural number, as an f-string prints an \<open>int\<close>.\<close>

fun str_nat :: "nat \<Rightarrow> string" where
  "str_nat n =
     (if n < 10 then [char_of (48 + n)]
      else str_nat (n div 10) @ [char_of (48 + n mod 10)])"

text \<open>A text given line by line: every line is followed by a newline.\<close>

definition unlines :: "string list \<Rightarrow> string" where
  "unlines ls = concat (map (\<lambda>l. l @ [CHR 0x0A]) ls)"

section \<open>Session state and collaborators\<close>

text \<open>
  \<open>st.session_state\<close> with the six fields the script initialises, and \<open>anthropic_key\<close>,
  which the sidebar sets and which is absent (\<open>None\<close>) until then.
\<close>

record session =
  step :: int
  generated_code :: "string option"
  api_doc_url :: string
  auth_method :: string
  sandbox_passed :: bool
  ai_insights :: "string list"
  anthropic_key :: "string option"

definition initial_session :: session where
  "initial_session =
     \<lparr>step = 1, generated_code = None, api_doc_url = [], auth_method = ''OAuth 2.0'',
      sandbox_passed = False, ai_insights = [], anthropic_key = None\<rparr>"

text \<open>
  The exceptions of the model are all instances of Python's \<open>Exception\<close>, so an
  \<open>except Exception\<close> clause catches each of them where it stands around the line that
  raises. \<open>SecretNotFound\<close> is Streamlit's \<open>StreamlitSecretNotFoundError\<close>.
\<close>

datatype exn = TypeError | CapabilityError string | SecretNotFound

text \<open>
  What the script reads from outside. \<open>st.secrets\<close> is the dictionary of the
  installation's secrets file; without such a file there is no dictionary (\<open>None\<close>), and
  every read of \<open>st.secrets\<close>, a membership test included, raises
  \<open>StreamlitSecretNotFoundError\<close>. \<open>messages_create key prompt\<close> stands for the lines of the
  \<open>try\<close> block that build the client from the key, send the prompt (model,
  \<open>max_tokens=4000\<close> and \<open>temperature=0.3\<close> are constants) and read
  \<open>message.content[0].text\<close>: it yields the text, or the exception that one of these lines
  raised.
\<close>

record env =
  secrets :: "(string \<rightharpoonup> string) option"
  messages_create :: "string option \<Rightarrow> string \<Rightarrow> exn + string"

text \<open>Truth value of an optional text: \<open>None\<close> and the empty text are false.\<close>

definition truthy :: "string option \<Rightarrow> bool" where
  "truthy v = (case v of None \<Rightarrow> False | Some t \<Rightarrow> t \<noteq> [])"

section \<open>The fixed sample returned in demo mode\<close>

text \<open>
  The literal that \<open>generate_demo_code\<close> returns, line by line and in the order of the
  source, cut into one list of lines per class header or method.
\<close>

definition demo_header :: "string list" where
  \<open>demo_header =
    [ ''"""'',
      ''Calendly API Integration - Production Ready'',
      ''Generated by CloudEagle AI Integration Builder'',
      ''"""'',
      '''',
      ''import requests'',
      ''from typing import Dict, List, Optional'',
      ''import os'',
      ''import time'',
      ''import logging'',
      ''from datetime import datetime, timedelta'',
      '''',
      ''# Configure logging'',
      ''logging.basicConfig('',
      ''    level=logging.INFO,'',
      ''    format=\'%(asctime)s - %(name)s - %(levelname)s - %(message)s'' @ [CHR 0x27],
      '')'',
      ''logger = logging.getLogger(__name__)'',
      '''',
      '''']\<close>

definition demo_auth_init :: "string list" where
  \<open>demo_auth_init =
    [ ''class CalendlyAuth:'',
      ''    """Handles OAuth 2.0 authentication for Calendly API"""'',
      ''    '',
      ''    def __init__(self, client_id: str, client_secret: str):'',
      ''        """'',
      ''        Initialize Calendly authentication'',
      ''        '',
      ''        Args:'',
      ''            client_id: OAuth client ID from Calendly'',
      ''            client_secret: OAuth client secret from Calendly'',
      ''        """'',
      ''        self.client_id = client_id'',
      ''        self.client_secret = client_secret'',
      ''        self.access_token: Optional[str] = None'',
      ''        self.refresh_token: Optional[str] = None'',
      ''        self.token_expires_at: Optional[datetime] = None'',
      ''        self.base_auth_url = "https://auth.calendly.com/oauth"'',
      ''        '',
      ''        logger.info("Calendly authentication initialized")'',
      ''    '']\<close>

definition demo_auth_url :: "string list" where
  \<open>demo_auth_url =
    [ ''    def get_authorization_url(self, redirect_uri: str) -> str:'',
      ''        """'',
      ''        Generate OAuth authorization URL'',
      ''        '',
      ''        Args:'',
      ''            redirect_uri: Callback URL after authorization'',
      ''            '',
      ''        Returns:'',
      ''            Authorization URL for user to visit'',
      ''        """'',
      ''        return ('',
      ''            f"{self.base_auth_url}/authorize?"'',
      ''            f"client_id={self.client_id}&"'',
      ''            f"redirect_uri={redirect_uri}&"'',
      ''            f"response_type=code"'',
      ''        )'',
      ''    '']\<close>

definition demo_auth_exchange :: "string list" where
  \<open>demo_auth_exchange =
    [ ''    def exchange_code_for_token(self, code: str, redirect_uri: str) -> Dict:'',
      ''        """'',
      ''        Exchange authorization code for access token'',
      ''        '',
      ''        Args:'',
      ''            code: Authorization code from OAuth callback'',
      ''            redirect_uri: Same redirect URI used in authorization'',
      ''            '',
      ''        Returns:'',
      ''            Token response with access_token and refresh_token'',
      ''        """'',
      ''        try:'',
      ''            response = requests.post('',
      ''                f"{self.base_auth_url}/token",'',
      ''                data={'',
      ''                    "grant_type": "authorization_code",'',
      ''                    "code": code,'',
      ''                    "redirect_uri": redirect_uri,'',
      ''                    "client_id": self.client_id,'',
      ''                    "client_secret": self.client_secret'',
      ''                },'',
      ''                timeout=30'',
      ''            )'',
      ''            response.raise_for_status()'',
      ''            '',
      ''            token_data = response.json()'',
      ''            self.access_token = token_data.get("access_token")'',
      ''            self.refresh_token = token_data.get("refresh_token")'',
      ''            '',
      ''            # Calculate expiration (Calendly tokens expire in 2 hours)'',
      ''            expires_in = token_data.get("expires_in", 7200)'',
      ''            self.token_expires_at = datetime.now() + timedelta(seconds=expires_in)'',
      ''            '',
      ''            logger.info("Successfully obtained access token")'',
      ''            return token_data'',
      ''            '',
      ''        except requests.exceptions.RequestException as e:'',
      ''            logger.error(f"Token exchange failed: {str(e)}")'',
      ''            raise'',
      ''    '']\<close>

definition demo_auth_refresh :: "string list" where
  \<open>demo_auth_refresh =
    [ ''    def refresh_access_token(self) -> Dict:'',
      ''        """'',
      ''        Refresh expired access token using refresh token'',
      ''        '',
      ''        Returns:'',
      ''            New token response'',
      ''        """'',
      ''        if not self.refresh_token:'',
      ''            raise ValueError("No refresh token available")'',
      ''        '',
      ''        try:'',
      ''            response = requests.post('',
      ''                f"{self.base_auth_url}/token",'',
      ''                data={'',
      ''                    "grant_type": "refresh_token",'',
      ''                    "refresh_token": self.refresh_token,'',
      ''                    "client_id": self.client_id,'',
      ''                    "client_secret": self.client_secret'',
      ''                },'',
      ''                timeout=30'',
      ''            )'',
      ''            response.raise_for_status()'',
      ''            '',
      ''            token_data = response.json()'',
      ''            self.access_token = token_data.get("access_token")'',
      ''            '',
      ''            # Update expiration'',
      ''            expires_in = token_data.get("expires_in", 7200)'',
      ''            self.token_expires_at = datetime.now() + timedelta(seconds=expires_in)'',
      ''            '',
      ''            logger.info("Access token refreshed successfully")'',
      ''            return token_data'',
      ''            '',
      ''        except requests.exceptions.RequestException as e:'',
      ''            logger.error(f"Token refresh failed: {str(e)}")'',
      ''            raise'',
      ''    '']\<close>

definition demo_auth_valid :: "string list" where
  \<open>demo_auth_valid =
    [ ''    def get_valid_token(self) -> str:'',
      ''        """'',
      ''        Get valid access token, refreshing if necessary'',
      ''        '',
      ''        Returns:'',
      ''            Valid access token'',
      ''        """'',
      ''        # Check if token needs refresh (refresh 5 minutes before expiry)'',
      ''        if self.token_expires_at:'',
      ''            time_until_expiry = (self.token_expires_at - datetime.now()).total_seconds()'',
      ''            if time_until_expiry < 300:  # Less than 5 minutes'',
      ''                logger.info("Token expiring soon, refreshing...")'',
      ''                self.refresh_access_token()'',
      ''        '',
      ''        return self.access_token'',
      '''',
      '''']\<close>

definition demo_client_init :: "string list" where
  \<open>demo_client_init =
    [ ''class CalendlyClient:'',
      ''    """Main Calendly API client"""'',
      ''    '',
      ''    def __init__(self, auth: CalendlyAuth):'',
      ''        """'',
      ''        Initialize Calendly client'',
      ''        '',
      ''        Args:'',
      ''            auth: CalendlyAuth instance with valid credentials'',
      ''        """'',
      ''        self.auth = auth'',
      ''        self.base_url = "https://api.calendly.com"'',
      ''        self.session = requests.Session()'',
      ''        self.session.headers.update({'',
      ''            "Content-Type": "application/json"'',
      ''        })'',
      ''        '',
      ''        logger.info("Calendly client initialized")'',
      ''    '']\<close>

definition demo_client_request :: "string list" where
  \<open>demo_client_request =
    [ ''    def _make_request('',
      ''        self, '',
      ''        method: str, '',
      ''        endpoint: str, '',
      ''        **kwargs'',
      ''    ) -> requests.Response:'',
      ''        """'',
      ''        Make authenticated API request with retry logic'',
      ''        '',
      ''        Args:'',
      ''            method: HTTP method (GET, POST, etc.)'',
      ''            endpoint: API endpoint path'',
      ''            **kwargs: Additional request parameters'',
      ''            '',
      ''        Returns:'',
      ''            Response object'',
      ''        """'',
      ''        url = f"{self.base_url}/{endpoint.lstrip(\'/\')}"'',
      ''        '',
      ''        # Add authorization header'',
      ''        token = self.auth.get_valid_token()'',
      ''        headers = kwargs.pop(\'headers\', {})'',
      ''        headers[\'Authorization\'] = f\'Bearer {token}'' @ [CHR 0x27],
      ''        '',
      ''        # Retry logic with exponential backoff'',
      ''        max_retries = 3'',
      ''        for attempt in range(max_retries):'',
      ''            try:'',
      ''                response = self.session.request('',
      ''                    method=method,'',
      ''                    url=url,'',
      ''                    headers=headers,'',
      ''                    timeout=30,'',
      ''                    **kwargs'',
      ''                )'',
      ''                '',
      ''                # Handle rate limiting'',
      ''                if response.status_code == 429:'',
      ''                    retry_after = int(response.headers.get(\'Retry-After\', 60))'',
      ''                    logger.warning(f"Rate limited. Waiting {retry_after} seconds...")'',
      ''                    time.sleep(retry_after)'',
      ''                    continue'',
      ''                '',
      ''                response.raise_for_status()'',
      ''                return response'',
      ''                '',
      ''            except requests.exceptions.RequestException as e:'',
      ''                if attempt < max_retries - 1:'',
      ''                    wait_time = 2 ** attempt  # Exponential backoff'',
      ''                    logger.warning(f"Request failed. Retrying in {wait_time}s...")'',
      ''                    time.sleep(wait_time)'',
      ''                else:'',
      ''                    logger.error(f"Request failed after {max_retries} attempts: {str(e)}")'',
      ''                    raise'',
      ''    '']\<close>

definition demo_client_user :: "string list" where
  \<open>demo_client_user =
    [ ''    def get_current_user(self) -> Dict:'',
      ''        """'',
      ''        Get current authenticated user'',
      ''        '',
      ''        Returns:'',
      ''            User object'',
      ''        """'',
      ''        response = self._make_request(\'GET\', \'/users/me\')'',
      ''        return response.json()'',
      ''    '']\<close>

definition demo_client_list_users :: "string list" where
  \<open>demo_client_list_users =
    [ ''    def list_users(self, organization_uri: str, max_results: int = 100) -> List[Dict]:'',
      ''        """'',
      ''        List all users in organization with automatic pagination'',
      ''        '',
      ''        Args:'',
      ''            organization_uri: Organization URI'',
      ''            max_results: Maximum number of results to return'',
      ''            '',
      ''        Returns:'',
      ''            List of user objects'',
      ''        """'',
      ''        all_users = []'',
      ''        page_token = None'',
      ''        '',
      ''        while len(all_users) < max_results:'',
      ''            params = {'',
      ''                \'organization\': organization_uri,'',
      ''                \'count\': min(100, max_results - len(all_users))'',
      ''            }'',
      ''            '',
      ''            if page_token:'',
      ''                params[\'page_token\'] = page_token'',
      ''            '',
      ''            response = self._make_request(\'GET\', \'/users\', params=params)'',
      ''            data = response.json()'',
      ''            '',
      ''            users = data.get(\'collection\', [])'',
      ''            all_users.extend(users)'',
      ''            '',
      ''            # Check for next page'',
      ''            pagination = data.get(\'pagination\', {})'',
      ''            page_token = pagination.get(\'next_page_token\')'',
      ''            '',
      ''            if not page_token or len(all_users) >= max_results:'',
      ''                break'',
      ''            '',
      ''            logger.info(f"Fetched {len(all_users)} users so far...")'',
      ''        '',
      ''        logger.info(f"Total users retrieved: {len(all_users)}")'',
      ''        return all_users[:max_results]'',
      ''    '']\<close>

definition demo_client_event_types :: "string list" where
  \<open>demo_client_event_types =
    [ ''    def get_event_types(self, user_uri: str) -> List[Dict]:'',
      ''        """'',
      ''        Get event types for a user'',
      ''        '',
      ''        Args:'',
      ''            user_uri: User URI'',
      ''            '',
      ''        Returns:'',
      ''            List of event type objects'',
      ''        """'',
      ''        all_event_types = []'',
      ''        page_token = None'',
      ''        '',
      ''        while True:'',
      ''            params = {\'user\': user_uri, \'count\': 100}'',
      ''            '',
      ''            if page_token:'',
      ''                params[\'page_token\'] = page_token'',
      ''            '',
      ''            response = self._make_request(\'GET\', \'/event_types\', params=params)'',
      ''            data = response.json()'',
      ''            '',
      ''            event_types = data.get(\'collection\', [])'',
      ''            all_event_types.extend(event_types)'',
      ''            '',
      ''            # Check for next page'',
      ''            pagination = data.get(\'pagination\', {})'',
      ''            page_token = pagination.get(\'next_page_token\')'',
      ''            '',
      ''            if not page_token:'',
      ''                break'',
      ''        '',
      ''        logger.info(f"Retrieved {len(all_event_types)} event types")'',
      ''        return all_event_types'',
      ''    '']\<close>

definition demo_client_events :: "string list" where
  \<open>demo_client_events =
    [ ''    def get_scheduled_events('',
      ''        self, '',
      ''        organization_uri: str,'',
      ''        min_start_time: Optional[str] = None,'',
      ''        max_start_time: Optional[str] = None'',
      ''    ) -> List[Dict]:'',
      ''        """'',
      ''        Get scheduled events with optional date filtering'',
      ''        '',
      ''        Args:'',
      ''            organization_uri: Organization URI'',
      ''            min_start_time: Filter events after this time (ISO 8601)'',
      ''            max_start_time: Filter events before this time (ISO 8601)'',
      ''            '',
      ''        Returns:'',
      ''            List of event objects'',
      ''        """'',
      ''        all_events = []'',
      ''        page_token = None'',
      ''        '',
      ''        while True:'',
      ''            params = {'',
      ''                \'organization\': organization_uri,'',
      ''                \'count\': 100'',
      ''            }'',
      ''            '',
      ''            if min_start_time:'',
      ''                params[\'min_start_time\'] = min_start_time'',
      ''            if max_start_time:'',
      ''                params[\'max_start_time\'] = max_start_time'',
      ''            if page_token:'',
      ''                params[\'page_token\'] = page_token'',
      ''            '',
      ''            response = self._make_request(\'GET\', \'/scheduled_events\', params=params)'',
      ''            data = response.json()'',
      ''            '',
      ''            events = data.get(\'collection\', [])'',
      ''            all_events.extend(events)'',
      ''            '',
      ''            # Check for next page'',
      ''            pagination = data.get(\'pagination\', {})'',
      ''            page_token = pagination.get(\'next_page_token\')'',
      ''            '',
      ''            if not page_token:'',
      ''                break'',
      ''        '',
      ''        logger.info(f"Retrieved {len(all_events)} scheduled events")'',
      ''        return all_events'',
      '''',
      '''']\<close>

definition demo_usage :: "string list" where
  \<open>demo_usage =
    [ ''# Example usage'',
      ''if __name__ == "__main__":'',
      ''    # Initialize from environment variables (never hardcode!)'',
      ''    client_id = os.environ.get("CALENDLY_CLIENT_ID")'',
      ''    client_secret = os.environ.get("CALENDLY_CLIENT_SECRET")'',
      ''    '',
      ''    if not client_id or not client_secret:'',
      ''        raise ValueError("Missing CALENDLY_CLIENT_ID or CALENDLY_CLIENT_SECRET")'',
      ''    '',
      ''    # Set up authentication'',
      ''    auth = CalendlyAuth(client_id=client_id, client_secret=client_secret)'',
      ''    '',
      ''    # For OAuth flow, you would:'',
      ''    # 1. Redirect user to: auth.get_authorization_url(redirect_uri)'',
      ''    # 2. Handle callback and exchange code'',
      ''    # auth.exchange_code_for_token(code, redirect_uri)'',
      ''    '',
      ''    # Create client'',
      ''    client = CalendlyClient(auth=auth)'',
      ''    '',
      ''    # Get current user'',
      ''    user = client.get_current_user()'',
      ''    print(f"Authenticated as: {user[\'resource\'][\'name\']}")'',
      ''    '',
      ''    # List users in organization'',
      ''    org_uri = user[\'resource\'][\'current_organization\']'',
      ''    users = client.list_users(organization_uri=org_uri, max_results=50)'',
      ''    print(f"Found {len(users)} users")'',
      ''    '',
      ''    # Get scheduled events'',
      ''    events = client.get_scheduled_events(organization_uri=org_uri)'',
      ''    print(f"Found {len(events)} scheduled events")'']\<close>

definition demo_lines :: "string list" where
  "demo_lines =
     demo_header @ demo_auth_init @ demo_auth_url @ demo_auth_exchange @ demo_auth_refresh @
     demo_auth_valid @ demo_client_init @ demo_client_request @ demo_client_user @
     demo_client_list_users @ demo_client_event_types @ demo_client_events @ demo_usage"

definition demo_code_text :: string where
  "demo_code_text = unlines demo_lines"

definition demo_insights :: "string list" where
  "demo_insights =
     [bullet @ '' Detected OAuth 2.0 with refresh token flow'',
      bullet @ '' Found 12 relevant endpoints for user data'',
      bullet @ '' Pagination uses cursor-based method'',
      bullet @ '' Rate limit: 500 requests/minute'']"

text \<open>
  \<open>generate_demo_code\<close> stores the four fixed lines in \<open>ai_insights\<close> and returns the
  sample; it reads neither of its parameters.
\<close>

definition generate_demo_code :: "string \<Rightarrow> string \<Rightarrow> session \<Rightarrow> string \<times> session" where
  "generate_demo_code doc_url method s =
     (demo_code_text, s\<lparr>ai_insights := demo_insights\<rparr>)"

section \<open>Insights\<close>

definition line_oauth :: string where
  "line_oauth = bullet @ '' Detected OAuth 2.0 with refresh token flow''"

definition line_cursor :: string where
  "line_cursor = bullet @ '' Pagination uses cursor-based method''"

definition line_offset :: string where
  "line_offset = bullet @ '' Pagination uses offset-based method''"

definition line_rate_limit :: string where
  "line_rate_limit = bullet @ '' Rate limiting implemented with backoff''"

definition line_retry :: string where
  "line_retry = bullet @ '' Automatic retry logic included''"

definition line_methods :: "nat \<Rightarrow> string" where
  "line_methods n = bullet @ '' Found '' @ str_nat n @ '' data retrieval methods''"

definition endpoint_count :: "string \<Rightarrow> nat" where
  "endpoint_count code = str_count code ''def get_'' + str_count code ''def list_''"

text \<open>
  \<open>extract_insights\<close>: the list starts empty and each test that holds appends its line, in
  the order of the source.
\<close>

definition extract_insights :: "string \<Rightarrow> string \<Rightarrow> string list" where
  "extract_insights code api_url =
     (let insights = [];
          insights = (if sublist ''OAuth'' code \<or> sublist ''oauth'' code
                      then insights @ [line_oauth] else insights);
          insights = (if sublist ''cursor'' (lower code)
                      then insights @ [line_cursor] else insights);
          insights = (if sublist ''offset'' (lower code)
                      then insights @ [line_offset] else insights);
          insights = (if sublist ''rate_limit'' (lower code) \<or> sublist ''RateLimit'' code
                      then insights @ [line_rate_limit] else insights);
          insights = (if sublist ''retry'' (lower code)
                      then insights @ [line_retry] else insights);
          n = endpoint_count code;
          insights = (if 0 < n then insights @ [line_methods n] else insights)
      in insights)"

text \<open>The list of one line if a test holds and the empty list if not.\<close>

definition opt :: "bool \<Rightarrow> 'a \<Rightarrow> 'a list" where
  "opt b x = (if b then [x] else [])"

text \<open>
  The specification's reading of the marker tests: a marker occurs in a text when case is
  ignored if the lower-cased marker is a run of the lower-cased text. And the order it
  fixes for the lines, the last one reporting \<open>n\<close> methods.
\<close>

definition occurs_ignoring_case :: "string \<Rightarrow> string \<Rightarrow> bool" where
  "occurs_ignoring_case marker txt = sublist (lower marker) (lower txt)"

definition fixed_order :: "nat \<Rightarrow> string list" where
  "fixed_order n =
     [line_oauth, line_cursor, line_offset, line_rate_limit, line_retry, line_methods n]"

section \<open>Code generation\<close>

definition prompt :: "string \<Rightarrow> string \<Rightarrow> string \<Rightarrow> string" where
  \<open>prompt doc_url method language =
     unlines
       [ ''You are an expert integration engineer building production-grade API integration code.'',
         '''',
         ''API Documentation URL: '' @ doc_url,
         ''Authentication Method: '' @ method,
         ''Target Language: '' @ language,
         '''',
         ''Based on the API documentation, generate a complete, production-ready integration that includes:'',
         '''',
         ''1. **Authentication Setup**'',
         ''   - Handle '' @ method,
         ''   - Token refresh logic (if applicable)'',
         ''   - Secure credential management using environment variables'',
         ''   - Error handling for auth failures'',
         '''',
         ''2. **API Client Class**'',
         ''   - Base URL configuration'',
         ''   - Request/response handling'',
         ''   - Rate limit awareness from API docs'',
         ''   - Version handling (if required by API)'',
         '''',
         ''3. **Data Retrieval Methods**'',
         ''   - Get users endpoint'',
         ''   - Get usage/analytics data'',
         ''   - Handle nested resources'',
         ''   - Proper typing with type hints'',
         '''',
         ''4. **Pagination Implementation**'',
         ''   - Auto-detect pagination type (cursor, offset, link-header)'',
         ''   - Iterator pattern for seamless pagination'',
         ''   - Handle empty responses'',
         '''',
         ''5. **Error Handling**'',
         ''   - Retry logic with exponential backoff'',
         ''   - Rate limit handling (429)'',
         ''   - Network errors'',
         ''   - API-specific error codes'',
         '''',
         ''6. **Logging**'',
         ''   - Structured logging with correlation IDs'',
         ''   - Log levels (INFO, WARNING, ERROR)'',
         ''   - API call tracking'',
         '''',
         ''CRITICAL REQUIREMENTS:'',
         ''- NO hardcoded credentials'',
         ''- Follow PEP 8 style guide'',
         ''- Include comprehensive docstrings'',
         ''- Add type hints'',
         ''- Use best practices from the API documentation'',
         ''- Implement defensive programming'',
         '''']
     @ ''Generate ONLY the Python code with clear comments. Make it production-ready.''\<close>

text \<open>
  The test of the first line of \<open>generate_integration_code\<close>, on the dictionary of a
  secrets file that exists: no key in the dictionary and no non-empty key in the session.
  The key that the \<open>try\<close> block uses is the secret if there is one and the session's key
  if not.
\<close>

definition credential_missing :: "(string \<rightharpoonup> string) \<Rightarrow> session \<Rightarrow> bool" where
  "credential_missing sec s =
     (sec ''ANTHROPIC_API_KEY'' = None \<and> \<not> truthy (anthropic_key s))"

definition api_key :: "(string \<rightharpoonup> string) \<Rightarrow> session \<Rightarrow> string option" where
  "api_key sec s =
     (case sec ''ANTHROPIC_API_KEY'' of Some k \<Rightarrow> Some k | None \<Rightarrow> anthropic_key s)"

text \<open>
  \<open>generate_integration_code\<close>. The credential test is the first statement and stands
  before the \<open>try\<close>: it reads \<open>st.secrets\<close> first, so without a secrets file its exception
  leaves the function, whatever the session holds. With a secrets file and without a
  credential the function returns the demo sample. Otherwise the \<open>try\<close> block runs: the
  generated text is scanned for insights, which are stored, and returned. The session is
  only written on the last line of the block, so an exception leaves it as it was, and
  the handler returns the demo sample. The result is \<open>Inr\<close> of the text and the session,
  or \<open>Inl\<close> of an exception that leaves the function.
\<close>

definition generate_integration_code ::
  "env \<Rightarrow> string \<Rightarrow> string \<Rightarrow> string \<Rightarrow> session \<Rightarrow> exn + (string \<times> session)" where
  "generate_integration_code e doc_url method language s =
     (case secrets e of
        None \<Rightarrow> Inl SecretNotFound
      | Some sec \<Rightarrow>
          if credential_missing sec s
          then Inr (generate_demo_code doc_url method s)
          else
            (let body =
               (case messages_create e (api_key sec s) (prompt doc_url method language) of
                  Inl x \<Rightarrow> Inl x
                | Inr generated \<Rightarrow>
                    Inr (generated, s\<lparr>ai_insights := extract_insights generated doc_url\<rparr>))
             in case body of
                  Inl x \<Rightarrow> Inr (generate_demo_code doc_url method s)
                | Inr r \<Rightarrow> Inr r))"

section \<open>Quality report\<close>

definition status_passed :: string where
  "status_passed = check_mark @ '' Passed''"

definition status_warning :: string where
  "status_warning = warning_sign @ '' Warning''"

text \<open>
  \<open>analyze_code_quality\<close>: the dictionary \<open>metrics\<close> in its insertion order, the number of
  values that contain the check mark, and the score. The score is a Python float; the model
  computes it in the real numbers.
\<close>

definition metrics_of :: "string \<Rightarrow> (string \<times> string) list" where
  "metrics_of code =
     [(''security'',
         if sublist ''os.environ'' code \<and> \<not> sublist ''hardcode'' (lower code)
         then status_passed else status_warning),
      (''error_handling'',
         if sublist ''try:'' code \<and> sublist ''except'' code
         then status_passed else status_warning),
      (''pagination'',
         if sublist ''pagination'' (lower code) \<or> sublist ''cursor'' (lower code)
         then status_passed else status_warning),
      (''rate_limiting'',
         if sublist ''rate_limit'' (lower code) \<or> sublist ''429'' code
         then status_passed else status_warning),
      (''logging'',
         if sublist ''logging'' (lower code) \<or> sublist ''logger'' code
         then status_passed else status_warning),
      (''best_practices'',
         if sublist ''type hints'' code \<or> sublist '':'' (take 1000 code)
         then status_passed else status_warning)]"

definition passed_count :: "(string \<times> string) list \<Rightarrow> nat" where
  "passed_count metrics = length (filter (\<lambda>v. sublist check_mark v) (map snd metrics))"

definition analyze_code_quality :: "string \<Rightarrow> (string \<times> string) list \<times> real" where
  "analyze_code_quality code =
     (let metrics = metrics_of code;
          passed = passed_count metrics;
          score = (real passed / real (length metrics)) * 10
      in (metrics, score))"

text \<open>
  The review page prints the score with \<open>{score:.1f}\<close>; \<open>tenths\<close> is the printed number in
  tenths, the nearest integer to ten times the score.
\<close>

definition tenths :: "real \<Rightarrow> int" where
  "tenths x = round (x * 10)"

section \<open>The workflow script\<close>

text \<open>
  Streamlit runs \<open>main\<close> from the top after every user action. What the widgets return in
  one run is the input of that run: the two text fields and, for every button, whether it
  reports a click. The script reads a button only on the page that shows it.

  Rendering is outside the model: the calls that only draw (\<open>st.markdown\<close>, \<open>st.code\<close>,
  progress bars, download buttons, and the \<open>st.image\<close> call at the top of the sidebar,
  which needs an image under the name it is given) write no session field and are taken
  to return. A run in which a widget reports anything comes after a run that drew that
  widget, so after a run whose drawing calls returned.
\<close>

record widgets =
  api_key_input :: string
  api_doc_url_input :: string
  btn_oauth :: bool
  btn_api_key :: bool
  btn_bearer_token :: bool
  btn_auto_detect :: bool
  btn_generate :: bool
  btn_review :: bool
  btn_back :: bool
  btn_test_in_sandbox :: bool
  btn_run_all_tests :: bool
  btn_back_to_code :: bool
  btn_deploy_to_production :: bool
  btn_deploy :: bool
  btn_start_new :: bool

text \<open>
  How a run ends: at the end of the script, at \<open>st.rerun()\<close>, which stops the run at once
  and asks for the next one, or with an exception. In each case the session keeps what the
  run has written so far.
\<close>

datatype outcome = Completed | Rerun | Raised exn

text \<open>The sidebar stores a non-empty key field in the session on every run.\<close>

definition sidebar :: "widgets \<Rightarrow> session \<Rightarrow> session" where
  "sidebar w s =
     (if api_key_input w \<noteq> [] then s\<lparr>anthropic_key := Some (api_key_input w)\<rparr> else s)"

text \<open>Page 1: the URL field is stored on every run, then the four method buttons, then the
  forward button, which has no condition.\<close>

definition page_configure :: "widgets \<Rightarrow> session \<Rightarrow> outcome \<times> session" where
  "page_configure w s =
     (let s = s\<lparr>api_doc_url := api_doc_url_input w\<rparr>;
          s = (if btn_oauth w then s\<lparr>auth_method := ''OAuth 2.0''\<rparr> else s);
          s = (if btn_api_key w then s\<lparr>auth_method := ''API Key''\<rparr> else s);
          s = (if btn_bearer_token w then s\<lparr>auth_method := ''Bearer Token''\<rparr> else s);
          s = (if btn_auto_detect w then s\<lparr>auth_method := ''Auto-detect''\<rparr> else s)
      in if btn_generate w then (Rerun, s\<lparr>step := 2\<rparr>) else (Completed, s))"

text \<open>Page 2: every run generates the code (with the default language) and stores it.\<close>

definition page_generate :: "env \<Rightarrow> widgets \<Rightarrow> session \<Rightarrow> outcome \<times> session" where
  "page_generate e w s =
     (case generate_integration_code e (api_doc_url s) (auth_method s) ''Python'' s of
        Inl x \<Rightarrow> (Raised x, s)
      | Inr (code, s) \<Rightarrow>
          (let s = s\<lparr>generated_code := Some code\<rparr>
           in if btn_review w then (Rerun, s\<lparr>step := 3\<rparr>) else (Completed, s)))"

text \<open>
  Page 3 slices \<open>generated_code\<close> and passes it to \<open>analyze_code_quality\<close> before it reads
  its buttons; on \<open>None\<close> the slice raises a \<open>TypeError\<close>. The quality report is only shown.
\<close>

definition page_review :: "widgets \<Rightarrow> session \<Rightarrow> outcome \<times> session" where
  "page_review w s =
     (case generated_code s of
        None \<Rightarrow> (Raised TypeError, s)
      | Some code \<Rightarrow>
          if btn_back w then (Rerun, s\<lparr>step := 1\<rparr>)
          else if btn_test_in_sandbox w then (Rerun, s\<lparr>step := 4\<rparr>)
          else (Completed, s))"

text \<open>
  Page 4: the test button sets \<open>sandbox_passed\<close>; then the back button; then the forward
  button, which is read only if \<open>sandbox_passed\<close> holds. If not, the button is drawn
  disabled and its value is dropped.
\<close>

definition page_sandbox :: "widgets \<Rightarrow> session \<Rightarrow> outcome \<times> session" where
  "page_sandbox w s =
     (let s = (if btn_run_all_tests w then s\<lparr>sandbox_passed := True\<rparr> else s)
      in if btn_back_to_code w then (Rerun, s\<lparr>step := 3\<rparr>)
         else if sandbox_passed s
              then (if btn_deploy_to_production w then (Rerun, s\<lparr>step := 5\<rparr>)
                    else (Completed, s))
              else (Completed, s))"

text \<open>Page 5: the button that starts a new integration sits inside the branch of the
  deploy button.\<close>

definition page_deploy :: "widgets \<Rightarrow> session \<Rightarrow> outcome \<times> session" where
  "page_deploy w s =
     (if btn_deploy w
      then (if btn_start_new w
            then (Rerun, s\<lparr>step := 1, generated_code := None, sandbox_passed := False\<rparr>)
            else (Completed, s))
      else (Completed, s))"

definition main :: "env \<Rightarrow> widgets \<Rightarrow> session \<Rightarrow> outcome \<times> session" where
  "main e w s0 =
     (let s = sidebar w s0
      in if step s = 1 then page_configure w s
         else if step s = 2 then page_generate e w s
         else if step s = 3 then page_review w s
         else if step s = 4 then page_sandbox w s
         else if step s = 5 then page_deploy w s
         else (Completed, s))"

text \<open>The session after one run, and the sessions that runs can reach from the start.\<close>

definition run :: "env \<Rightarrow> widgets \<Rightarrow> session \<Rightarrow> session" where
  "run e w s = snd (main e w s)"

inductive reachable :: "session \<Rightarrow> bool" where
  start: "reachable initial_session"
| next_run: "reachable s \<Longrightarrow> reachable (run e w s)"

text \<open>
  What Streamlit delivers. It runs the script again after every single click, so in one
  run at most one button reports a click.
\<close>

definition buttons :: "widgets \<Rightarrow> bool list" where
  "buttons w =
     [btn_oauth w, btn_api_key w, btn_bearer_token w, btn_auto_detect w, btn_generate w,
      btn_review w, btn_back w, btn_test_in_sandbox w, btn_run_all_tests w,
      btn_back_to_code w, btn_deploy_to_production w, btn_deploy w, btn_start_new w]"

definition deliverable :: "widgets \<Rightarrow> bool" where
  "deliverable w = (length (filter id (buttons w)) \<le> 1)"

text \<open>
  A run in which no button reports a click and no key is typed; the URL field shows the
  value that the script presets.
\<close>

definition default_doc_url :: string where
  "default_doc_url =
     ''https://developer.calendly.com/api-docs/4b402d5ab3edd-calendly-developer''"

definition idle :: widgets where
  "idle =
     \<lparr>api_key_input = [], api_doc_url_input = default_doc_url, btn_oauth = False,
      btn_api_key = False,
      btn_bearer_token = False, btn_auto_detect = False, btn_generate = False,
      btn_review = False, btn_back = False, btn_test_in_sandbox = False,
      btn_run_all_tests = False, btn_back_to_code = False,
      btn_deploy_to_production = False, btn_deploy = False, btn_start_new = False\<rparr>"

text \<open>
  A user action as a whole: the run of the click and, if it ends with \<open>st.rerun()\<close>, the
  run that this call forces. In the forced run no button reports a click and the key field
  of the sidebar keeps its content. The URL field is on page 1 only; a forced run that
  draws page 1 comes from page 3 or page 5, which do not have the field, so it is created
  anew and shows its preset.
\<close>

definition rerun_widgets :: "widgets \<Rightarrow> widgets" where
  "rerun_widgets w = idle\<lparr>api_key_input := api_key_input w\<rparr>"

definition action :: "env \<Rightarrow> widgets \<Rightarrow> session \<Rightarrow> session" where
  "action e w s =
     (if fst (main e w s) = Rerun then run e (rerun_widgets w) (snd (main e w s))
      else snd (main e w s))"

section \<open>Concrete collaborators and clicks\<close>

text \<open>
  Four environments. An installation without a secrets file. One with a secrets file
  that has no key, whose service fails if it is asked at all. One with a secret key whose
  service fails. One with a secret key whose service answers with the empty text.
\<close>

definition no_secrets_file :: env where
  "no_secrets_file = \<lparr>secrets = None, messages_create = (\<lambda>k p. Inl (CapabilityError []))\<rparr>"

definition no_service :: env where
  "no_service =
     \<lparr>secrets = Some Map.empty, messages_create = (\<lambda>k p. Inl (CapabilityError []))\<rparr>"



text \<open>
  Runs with a single click; the second one with the URL field cleared before, the third
  one with a URL typed into it.
\<close>

definition typed_url :: string where
  "typed_url = ''https://api.example.com/docs''"

definition click_generate_typed_url :: widgets where
  "click_generate_typed_url = idle\<lparr>api_doc_url_input := typed_url, btn_generate := True\<rparr>"

definition click_generate :: widgets where
  "click_generate = idle\<lparr>btn_generate := True\<rparr>"

definition click_generate_empty_url :: widgets where
  "click_generate_empty_url = idle\<lparr>api_doc_url_input := [], btn_generate := True\<rparr>"

definition click_review :: widgets where
  "click_review = idle\<lparr>btn_review := True\<rparr>"

definition click_back :: widgets where
  "click_back = idle\<lparr>btn_back := True\<rparr>"

definition click_test_in_sandbox :: widgets where
  "click_test_in_sandbox = idle\<lparr>btn_test_in_sandbox := True\<rparr>"

definition click_run_all_tests :: widgets where
  "click_run_all_tests = idle\<lparr>btn_run_all_tests := True\<rparr>"

definition click_back_to_code :: widgets where
  "click_back_to_code = idle\<lparr>btn_back_to_code := True\<rparr>"

definition click_deploy_to_production :: widgets where
  "click_deploy_to_production = idle\<lparr>btn_deploy_to_production := True\<rparr>"

text \<open>The two buttons of page 5, the second one drawn inside the branch of the first.\<close>

definition click_deploy :: widgets where
  "click_deploy = idle\<lparr>btn_deploy := True\<rparr>"

definition click_start_new :: widgets where
  "click_start_new = idle\<lparr>btn_start_new := True\<rparr>"

text \<open>
  The sessions of a walk through the pages in demo mode: after the forward click on page 1
  (\<open>at_generate\<close>), on page 2 (\<open>at_review\<close>), on page 3 (\<open>at_sandbox\<close>), after the test run
  (\<open>tested\<close>) and after the forward click on page 4 (\<open>at_deploy\<close>).
\<close>

definition at_generate :: session where
  "at_generate = run no_service click_generate initial_session"

definition at_review :: session where
  "at_review = run no_service click_review at_generate"

definition at_sandbox :: session where
  "at_sandbox = run no_service click_test_in_sandbox at_review"

definition tested :: session where
  "tested = run no_service click_run_all_tests at_sandbox"

definition at_deploy :: session where
  "at_deploy = run no_service click_deploy_to_production tested"

text \<open>
  The session of a user who types a URL on page 1, clicks forward there and forward
  again on page 2: page 3 with the typed URL.
\<close>

definition typed_review :: session where
  "typed_review =
     action no_service click_review (action no_service click_generate_typed_url initial_session)"

section \<open>Facts about texts\<close>

lemma unlines_Cons: "unlines (l # ls) = l @ CHR 0x0A # unlines ls"
  by (simp add: unlines_def)

lemma unlines_append: "unlines (xs @ ys) = unlines xs @ unlines ys"
  by (simp add: unlines_def)

lemma sublist_unlines:
  assumes "l \<in> set ls" and "sublist sub l"
  shows "sublist sub (unlines ls)"
proof -
  from assms(1) obtain xs ys where ls: "ls = xs @ l # ys"
    by (auto dest: split_list)
  from assms(2) obtain ps ss where l: "l = ps @ sub @ ss"
    by (auto simp: sublist_def)
  have "unlines ls = (unlines xs @ ps) @ sub @ (ss @ CHR 0x0A # unlines ys)"
    by (simp add: ls l unlines_append unlines_Cons)
  then show ?thesis
    unfolding sublist_def by blast
qed

lemma lower_unlines: "lower (unlines ls) = unlines (map lower ls)"
  by (induction ls) (simp_all add: lower_def unlines_def lower_char_def)

lemma sublist_lower_unlines:
  assumes "l \<in> set ls" and "sublist sub (lower l)"
  shows "sublist sub (lower (unlines ls))"
  unfolding lower_unlines using assms by (intro sublist_unlines[of "lower l"]) auto

lemma sublist_take_prefix:
  assumes "xs = ps @ sub @ ss" and "length ps + length sub \<le> n"
  shows "sublist sub (take n xs)"
proof -
  have "take n xs = ps @ sub @ take (n - length ps - length sub) ss"
    using assms by simp
  then show ?thesis by simp
qed


section \<open>Demo mode\<close>

lemma no_secrets_file_raises:
  "secrets e = None \<Longrightarrow> generate_integration_code e d m l s = Inl SecretNotFound"
  by (simp add: generate_integration_code_def)

lemma demo_mode_with_secrets_file:
  assumes "secrets e = Some sec" and "credential_missing sec s"
  shows "generate_integration_code e d m l s =
           Inr (demo_code_text, s\<lparr>ai_insights := demo_insights\<rparr>)"
  using assms by (simp add: generate_integration_code_def generate_demo_code_def)

lemma no_key_missing: "anthropic_key s = None \<Longrightarrow> credential_missing Map.empty s"
  by (simp add: credential_missing_def truthy_def)

lemmas clicks = idle_def click_generate_def click_generate_empty_url_def
  click_generate_typed_url_def click_review_def click_back_def click_test_in_sandbox_def
  click_run_all_tests_def click_back_to_code_def click_deploy_to_production_def
  click_deploy_def click_start_new_def

lemmas pages = main_def sidebar_def page_configure_def page_generate_def page_review_def
  page_sandbox_def page_deploy_def

lemma at_generate_eq:
  "at_generate =
     \<lparr>step = 2, generated_code = None, api_doc_url = default_doc_url,
      auth_method = ''OAuth 2.0'', sandbox_passed = False, ai_insights = [],
      anthropic_key = None\<rparr>"
  by (simp add: at_generate_def run_def pages clicks initial_session_def)

text \<open>
  C8. Without a credential \<open>generate_integration_code\<close> is to return the one fixed sample
  and to store the four fixed lines. The script says so itself (the help text of the key
  field: \<open>If not provided, demo mode will be used\<close>; the warning of the first branch:
  \<open>Using demo mode with pre-generated code\<close>), and it does so when a secrets file exists
  that has no key. In the plain installation without a credential, with no secrets file
  and no key typed, it does not: the credential test reads \<open>st.secrets\<close> before the \<open>try\<close>
  and raises, so the function returns no text, \<open>ai_insights\<close> keeps its value, and the run
  that draws page 2 ends with the exception and without generated code.
\<close>

theorem no_credential_without_secrets_file:
  "secrets no_secrets_file = None \<and> anthropic_key initial_session = None \<and>
   ai_insights initial_session = [] \<and>
   generate_integration_code no_secrets_file default_doc_url ''OAuth 2.0'' ''Python''
     initial_session = Inl SecretNotFound \<and>
   main no_secrets_file idle at_generate = (Raised SecretNotFound, at_generate) \<and>
   generated_code at_generate = None"
  by (simp add: no_secrets_file_raises no_secrets_file_def initial_session_def
        main_def sidebar_def page_generate_def idle_def at_generate_eq)

section \<open>The quality report of the demo sample\<close>

text \<open>Where the sample has the texts that the six checks look for.\<close>

lemma demo_environ: "sublist ''os.environ'' demo_code_text"
  unfolding demo_code_text_def
proof (rule sublist_unlines)
  show "''    client_id = os.environ.get(\"CALENDLY_CLIENT_ID\")'' \<in> set demo_lines"
    by (simp add: demo_lines_def demo_usage_def)
  show "sublist ''os.environ'' ''    client_id = os.environ.get(\"CALENDLY_CLIENT_ID\")''"
    by code_simp
qed

lemma demo_hardcode: "sublist ''hardcode'' (lower demo_code_text)"
  unfolding demo_code_text_def
proof (rule sublist_lower_unlines)
  show "''    # Initialize from environment variables (never hardcode!)'' \<in> set demo_lines"
    by (simp add: demo_lines_def demo_usage_def)
  show "sublist ''hardcode''
          (lower ''    # Initialize from environment variables (never hardcode!)'')"
    by code_simp
qed

lemma demo_try: "sublist ''try:'' demo_code_text"
  unfolding demo_code_text_def
proof (rule sublist_unlines)
  show "''        try:'' \<in> set demo_lines"
    by (simp add: demo_lines_def demo_auth_exchange_def)
  show "sublist ''try:'' ''        try:''"
    by code_simp
qed

lemma demo_except: "sublist ''except'' demo_code_text"
  unfolding demo_code_text_def
proof (rule sublist_unlines)
  show "''        except requests.exceptions.RequestException as e:'' \<in> set demo_lines"
    by (simp add: demo_lines_def demo_auth_exchange_def)
  show "sublist ''except'' ''        except requests.exceptions.RequestException as e:''"
    by code_simp
qed

lemma demo_pagination: "sublist ''pagination'' (lower demo_code_text)"
  unfolding demo_code_text_def
proof (rule sublist_lower_unlines)
  show "''        List all users in organization with automatic pagination'' \<in> set demo_lines"
    by (simp add: demo_lines_def demo_client_list_users_def)
  show "sublist ''pagination''
          (lower ''        List all users in organization with automatic pagination'')"
    by code_simp
qed

lemma demo_429: "sublist ''429'' demo_code_text"
  unfolding demo_code_text_def
proof (rule sublist_unlines)
  show "''                if response.status_code == 429:'' \<in> set demo_lines"
    by (simp add: demo_lines_def demo_client_request_def)
  show "sublist ''429'' ''                if response.status_code == 429:''"
    by code_simp
qed

lemma demo_logging: "sublist ''logging'' (lower demo_code_text)"
  unfolding demo_code_text_def
proof (rule sublist_lower_unlines)
  show "''import logging'' \<in> set demo_lines"
    by (simp add: demo_lines_def demo_header_def)
  show "sublist ''logging'' (lower ''import logging'')"
    by code_simp
qed

lemma demo_colon: "sublist '':'' (take 1000 demo_code_text)"
proof (rule sublist_take_prefix)
  show "demo_code_text = (unlines demo_header @ ''class CalendlyAuth'') @ '':'' @
     (CHR 0x0A # unlines (tl demo_auth_init @ demo_auth_url @ demo_auth_exchange @
        demo_auth_refresh @ demo_auth_valid @ demo_client_init @ demo_client_request @
        demo_client_user @ demo_client_list_users @ demo_client_event_types @
        demo_client_events @ demo_usage))"
    unfolding demo_code_text_def demo_lines_def unlines_append
    by (simp add: demo_auth_init_def unlines_Cons)
  show "length (unlines demo_header @ ''class CalendlyAuth'') + length '':'' \<le> 1000"
    by (simp add: demo_header_def unlines_def)
qed

lemma check_mark_in_passed: "sublist check_mark status_passed"
  by (simp add: status_passed_def)

lemma check_mark_not_in_warning: "\<not> sublist check_mark status_warning"
  by (simp add: status_warning_def check_mark_def warning_sign_def sublist_code)

lemma passed_neq_warning: "status_passed \<noteq> status_warning"
  by (simp add: status_warning_def status_passed_def check_mark_def warning_sign_def)

lemma metrics_of_demo:
  "metrics_of demo_code_text =
     [(''security'', status_warning), (''error_handling'', status_passed),
      (''pagination'', status_passed), (''rate_limiting'', status_passed),
      (''logging'', status_passed), (''best_practices'', status_passed)]"
  unfolding metrics_of_def
  by (simp only: demo_hardcode demo_try demo_except demo_pagination demo_429 demo_logging
        demo_colon simp_thms if_True if_False)

lemma tenths_25_3: "tenths (25 / 3) = 83"
proof -
  have "tenths (25 / 3) = \<lfloor>(503::real) / 6\<rfloor>"
    by (simp add: tenths_def round_def)
  also have "\<dots> = 83"
    by linarith
  finally show ?thesis .
qed

text \<open>
  C3, as the claim states it, fails. The sample has the line
  \<open># Initialize from environment variables (never hardcode!)\<close>, so the word \<open>hardcode\<close>
  is in the lower-cased text and the security check reports a warning: the report is not
  all \<open>Passed\<close> and the score is below 10.
\<close>

theorem demo_sample_not_all_passed:
  "(''security'', status_warning) \<in> set (fst (analyze_code_quality demo_code_text)) \<and>
   status_warning \<noteq> status_passed \<and>
   snd (analyze_code_quality demo_code_text) < 10"
  by (simp add: analyze_code_quality_def metrics_of_demo passed_count_def
        check_mark_in_passed check_mark_not_in_warning passed_neq_warning[symmetric])

text \<open>
  C3 as amended. On the text that \<open>generate_demo_code\<close> returns, \<open>analyze_code_quality\<close>
  reports \<open>Passed\<close> for error handling, pagination, rate limiting, logging and best
  practices and \<open>Warning\<close> for security; the score is five sixths of ten, 25/3, which the
  page prints as 8.3.
\<close>

theorem demo_sample_report:
  "analyze_code_quality demo_code_text =
     ([(''security'', status_warning), (''error_handling'', status_passed),
       (''pagination'', status_passed), (''rate_limiting'', status_passed),
       (''logging'', status_passed), (''best_practices'', status_passed)], 25 / 3)
   \<and> tenths (snd (analyze_code_quality demo_code_text)) = 83"
  by (simp add: analyze_code_quality_def metrics_of_demo passed_count_def
        check_mark_in_passed check_mark_not_in_warning tenths_25_3)

section \<open>The score\<close>

lemma metrics_of_values:
  "v \<in> set (map snd (metrics_of code)) \<Longrightarrow> v = status_passed \<or> v = status_warning"
  by (auto simp: metrics_of_def)

lemma length_metrics_of: "length (metrics_of code) = 6"
  by (simp add: metrics_of_def)

lemma passed_count_metrics_of:
  "passed_count (metrics_of code) =
     length (filter (\<lambda>v. v = status_passed) (map snd (metrics_of code)))"
proof -
  have "filter (\<lambda>v. sublist check_mark v) (map snd (metrics_of code)) =
        filter (\<lambda>v. v = status_passed) (map snd (metrics_of code))"
  proof (rule filter_cong[OF refl])
    fix v assume "v \<in> set (map snd (metrics_of code))"
    then have "v = status_passed \<or> v = status_warning"
      by (rule metrics_of_values)
    then show "sublist check_mark v = (v = status_passed)"
      using check_mark_in_passed check_mark_not_in_warning passed_neq_warning by auto
  qed
  then show ?thesis
    by (simp add: passed_count_def)
qed

lemma passed_count_le_6: "passed_count (metrics_of code) \<le> 6"
proof -
  have "passed_count (metrics_of code) \<le> length (map snd (metrics_of code))"
    unfolding passed_count_def by (rule length_filter_le)
  then show ?thesis
    by (simp add: length_metrics_of)
qed

lemma le_6_cases: "n \<le> 6 \<Longrightarrow> n = 0 \<or> n = 1 \<or> n = 2 \<or> n = 3 \<or> n = 4 \<or> n = 5 \<or> n = (6::nat)"
  by arith

lemma tenths_values:
  "tenths 0 = 0" "tenths (5 / 3) = 17" "tenths (10 / 3) = 33" "tenths 5 = 50"
  "tenths (20 / 3) = 67" "tenths (25 / 3) = 83" "tenths 10 = 100"
  unfolding tenths_def round_def by linarith+

lemma score_values:
  assumes "n \<le> 6"
  shows "(real n / 6) * 10 \<in> {0, 10 / 6, 20 / 6, 30 / 6, 40 / 6, 50 / 6, 10} \<and>
         tenths ((real n / 6) * 10) \<in> {0, 17, 33, 50, 67, 83, 100}"
  using le_6_cases[OF assms] by (elim disjE) (simp_all add: tenths_values)

text \<open>
  C7. For every text the score is the number of checks that report \<open>Passed\<close>, divided by
  six, times ten. So it lies between 0 and 10 and is one of the seven multiples of 10/6,
  and the number printed with one decimal is one of 0.0, 1.7, 3.3, 5.0, 6.7, 8.3 and 10.0
  (given here in tenths). The score is computed in the real numbers; the seven values are
  far from a rounding boundary of the one-decimal print.
\<close>

theorem score_formula_and_range:
  "snd (analyze_code_quality code) =
     (real (length (filter (\<lambda>v. v = status_passed)
                     (map snd (fst (analyze_code_quality code))))) / 6) * 10
   \<and> 0 \<le> snd (analyze_code_quality code) \<and> snd (analyze_code_quality code) \<le> 10
   \<and> snd (analyze_code_quality code) \<in> {0, 10 / 6, 20 / 6, 30 / 6, 40 / 6, 50 / 6, 10}
   \<and> tenths (snd (analyze_code_quality code)) \<in> {0, 17, 33, 50, 67, 83, 100}"
proof -
  let ?n = "passed_count (metrics_of code)"
  have score: "snd (analyze_code_quality code) = (real ?n / 6) * 10"
    by (simp add: analyze_code_quality_def Let_def length_metrics_of)
  have metrics: "fst (analyze_code_quality code) = metrics_of code"
    by (simp add: analyze_code_quality_def Let_def)
  have n: "?n \<le> 6"
    by (rule passed_count_le_6)
  have formula: "snd (analyze_code_quality code) =
     (real (length (filter (\<lambda>v. v = status_passed)
                     (map snd (fst (analyze_code_quality code))))) / 6) * 10"
    unfolding metrics score passed_count_metrics_of ..
  have lower: "0 \<le> snd (analyze_code_quality code)"
    unfolding score by simp
  have upper: "snd (analyze_code_quality code) \<le> 10"
    unfolding score using n by simp
  from score_values[OF n] formula lower upper show ?thesis
    unfolding score[symmetric] by blast
qed

section \<open>The insight lines\<close>

text \<open>\<open>extract_insights\<close> as a concatenation: one optional line per test, in the order of
  the tests.\<close>

lemma if_append_opt: "(if b then xs @ [x] else xs) = xs @ opt b x"
  by (simp add: opt_def)

lemma extract_insights_opt:
  "extract_insights code url =
     opt (sublist ''OAuth'' code \<or> sublist ''oauth'' code) line_oauth @
     opt (sublist ''cursor'' (lower code)) line_cursor @
     opt (sublist ''offset'' (lower code)) line_offset @
     opt (sublist ''rate_limit'' (lower code) \<or> sublist ''RateLimit'' code) line_rate_limit @
     opt (sublist ''retry'' (lower code)) line_retry @
     opt (0 < endpoint_count code) (line_methods (endpoint_count code))"
  unfolding extract_insights_def
  by (simp only: if_append_opt Let_def append_Nil append_assoc)

lemma set_opt: "(y \<in> set (opt b x)) = (b \<and> y = x)"
  by (cases b) (simp_all add: opt_def)

lemma subseq_opt: "subseq ys zs \<Longrightarrow> subseq (opt b x @ ys) (x # zs)"
  by (auto simp: opt_def)

lemma subseq_opt_last: "subseq (opt b x) [x]"
  by (auto simp: opt_def)

lemma lines_distinct:
  "distinct [line_oauth, line_cursor, line_offset, line_rate_limit, line_retry, line_methods n]"
  by (simp add: line_oauth_def line_cursor_def line_offset_def line_rate_limit_def
        line_retry_def line_methods_def)

lemma lower_markers:
  "lower ''cursor'' = ''cursor''" "lower ''offset'' = ''offset''"
  "lower ''rate_limit'' = ''rate_limit''" "lower ''retry'' = ''retry''"
  by (simp_all add: lower_def lower_char_def)


text \<open>
  C6, as the claim states it, fails in both directions. The text \<open>OAUTH\<close> has the marker
  \<open>oauth\<close> when case is ignored, and no OAuth line is emitted: the test looks for the two
  spellings \<open>OAuth\<close> and \<open>oauth\<close> only. The text \<open>RateLimit\<close> does not have the marker
  \<open>rate_limit\<close> in any case, and the rate limit line is emitted: the test also accepts the
  spelling \<open>RateLimit\<close>.
\<close>

theorem insights_not_case_insensitive:
  "occurs_ignoring_case ''oauth'' ''OAUTH'' \<and>
   line_oauth \<notin> set (extract_insights ''OAUTH'' ''https://api.example.com/docs'') \<and>
   \<not> occurs_ignoring_case ''rate_limit'' ''RateLimit'' \<and>
   line_rate_limit \<in> set (extract_insights ''RateLimit'' ''https://api.example.com/docs'')"
  by code_simp

text \<open>
  C6 as amended. For every text, the OAuth line is emitted if and only if the text has
  \<open>OAuth\<close> or \<open>oauth\<close> in exactly one of these two spellings; the lines for \<open>cursor\<close>,
  \<open>offset\<close> and \<open>retry\<close> are emitted if and only if the marker occurs in the text when case
  is ignored; the rate limit line is emitted if and only if \<open>rate_limit\<close> occurs when case
  is ignored or the text has \<open>RateLimit\<close> in this spelling; the line that reports the
  number of methods is emitted if and only if that number is positive. The emitted lines
  are always a subsequence of the fixed order OAuth, cursor, offset, rate limit, retry,
  method count, wherever the markers stand in the text.
\<close>

theorem insights_markers_and_order:
  "(line_oauth \<in> set (extract_insights code url) \<longleftrightarrow>
      sublist ''OAuth'' code \<or> sublist ''oauth'' code) \<and>
   (line_cursor \<in> set (extract_insights code url) \<longleftrightarrow> occurs_ignoring_case ''cursor'' code) \<and>
   (line_offset \<in> set (extract_insights code url) \<longleftrightarrow> occurs_ignoring_case ''offset'' code) \<and>
   (line_rate_limit \<in> set (extract_insights code url) \<longleftrightarrow>
      occurs_ignoring_case ''rate_limit'' code \<or> sublist ''RateLimit'' code) \<and>
   (line_retry \<in> set (extract_insights code url) \<longleftrightarrow> occurs_ignoring_case ''retry'' code) \<and>
   (line_methods (endpoint_count code) \<in> set (extract_insights code url) \<longleftrightarrow>
      0 < endpoint_count code) \<and>
   subseq (extract_insights code url) (fixed_order (endpoint_count code))"
proof -
  note d = lines_distinct[of "endpoint_count code", simplified]
  have 1: "line_oauth \<in> set (extract_insights code url) \<longleftrightarrow>
      sublist ''OAuth'' code \<or> sublist ''oauth'' code"
    using d by (auto simp: extract_insights_opt set_opt)
  have 2: "line_cursor \<in> set (extract_insights code url) \<longleftrightarrow>
      occurs_ignoring_case ''cursor'' code"
    using d by (auto simp: extract_insights_opt set_opt occurs_ignoring_case_def lower_markers)
  have 3: "line_offset \<in> set (extract_insights code url) \<longleftrightarrow>
      occurs_ignoring_case ''offset'' code"
    using d by (auto simp: extract_insights_opt set_opt occurs_ignoring_case_def lower_markers)
  have 4: "line_rate_limit \<in> set (extract_insights code url) \<longleftrightarrow>
      occurs_ignoring_case ''rate_limit'' code \<or> sublist ''RateLimit'' code"
    using d by (auto simp: extract_insights_opt set_opt occurs_ignoring_case_def lower_markers)
  have 5: "line_retry \<in> set (extract_insights code url) \<longleftrightarrow>
      occurs_ignoring_case ''retry'' code"
    using d by (auto simp: extract_insights_opt set_opt occurs_ignoring_case_def lower_markers)
  have 6: "line_methods (endpoint_count code) \<in> set (extract_insights code url) \<longleftrightarrow>
      0 < endpoint_count code"
    using d by (auto simp: extract_insights_opt set_opt)
  have 7: "subseq (extract_insights code url) (fixed_order (endpoint_count code))"
    unfolding extract_insights_opt fixed_order_def
    by (intro subseq_opt subseq_opt_last)
  from 1 2 3 4 5 6 7 show ?thesis by blast
qed

section \<open>Generation with a secrets file\<close>





section \<open>One run of the script, field by field\<close>

lemma sidebar_fields:
  "step (sidebar w s) = step s" "generated_code (sidebar w s) = generated_code s"
  "api_doc_url (sidebar w s) = api_doc_url s" "auth_method (sidebar w s) = auth_method s"
  "sandbox_passed (sidebar w s) = sandbox_passed s" "ai_insights (sidebar w s) = ai_insights s"
  by (simp_all add: sidebar_def)

lemma sidebar_no_key: "api_key_input w = [] \<Longrightarrow> sidebar w s = s"
  by (simp add: sidebar_def)

lemma generate_result:
  assumes "secrets e = Some sec"
  shows "\<exists>code ins. generate_integration_code e d m l s = Inr (code, s\<lparr>ai_insights := ins\<rparr>)"
  using assms unfolding generate_integration_code_def generate_demo_code_def Let_def
  by (cases "messages_create e (api_key sec s) (prompt d m l)") auto

lemma run_configure:
  "step s = 1 \<Longrightarrow> run e w s = snd (page_configure w (sidebar w s))"
  by (simp add: run_def main_def sidebar_fields)

lemma run_generate:
  "step s = 2 \<Longrightarrow> run e w s = snd (page_generate e w (sidebar w s))"
  by (simp add: run_def main_def sidebar_fields)

lemma run_review:
  "step s = 3 \<Longrightarrow> run e w s = snd (page_review w (sidebar w s))"
  by (simp add: run_def main_def sidebar_fields)

lemma run_sandbox:
  "step s = 4 \<Longrightarrow> run e w s = snd (page_sandbox w (sidebar w s))"
  by (simp add: run_def main_def sidebar_fields)

lemma run_deploy:
  "step s = 5 \<Longrightarrow> run e w s = snd (page_deploy w (sidebar w s))"
  by (simp add: run_def main_def sidebar_fields)

lemma run_other:
  "step s \<noteq> 1 \<Longrightarrow> step s \<noteq> 2 \<Longrightarrow> step s \<noteq> 3 \<Longrightarrow> step s \<noteq> 4 \<Longrightarrow> step s \<noteq> 5 \<Longrightarrow>
   run e w s = sidebar w s"
  by (simp add: run_def main_def sidebar_fields)

lemma page_configure_fields:
  "step (snd (page_configure w s)) = (if btn_generate w then 2 else step s)"
  "sandbox_passed (snd (page_configure w s)) = sandbox_passed s"
  "generated_code (snd (page_configure w s)) = generated_code s"
  "api_doc_url (snd (page_configure w s)) = api_doc_url_input w"
  "ai_insights (snd (page_configure w s)) = ai_insights s"
  by (simp_all add: page_configure_def Let_def)

text \<open>Page 2: without a secrets file the run ends with the exception and writes nothing;
  with one it stores a text.\<close>

lemma page_generate_no_file:
  "secrets e = None \<Longrightarrow> page_generate e w s = (Raised SecretNotFound, s)"
  by (simp add: page_generate_def no_secrets_file_raises)

lemma page_generate_fields:
  assumes "secrets e = Some sec"
  shows "step (snd (page_generate e w s)) = (if btn_review w then 3 else step s)"
    and "sandbox_passed (snd (page_generate e w s)) = sandbox_passed s"
    and "generated_code (snd (page_generate e w s)) \<noteq> None"
    and "api_doc_url (snd (page_generate e w s)) = api_doc_url s"
    and "auth_method (snd (page_generate e w s)) = auth_method s"
proof -
  obtain code ins where
    "generate_integration_code e (api_doc_url s) (auth_method s) ''Python'' s =
       Inr (code, s\<lparr>ai_insights := ins\<rparr>)"
    using generate_result[OF assms] by blast
  then show
    "step (snd (page_generate e w s)) = (if btn_review w then 3 else step s)"
    "sandbox_passed (snd (page_generate e w s)) = sandbox_passed s"
    "generated_code (snd (page_generate e w s)) \<noteq> None"
    "api_doc_url (snd (page_generate e w s)) = api_doc_url s"
    "auth_method (snd (page_generate e w s)) = auth_method s"
    by (simp_all add: page_generate_def Let_def)
qed

lemma run_generate_step:
  "step s = 2 \<Longrightarrow> step (run e w s) = 2 \<or> step (run e w s) = 3"
  by (cases "secrets e")
    (simp_all add: run_generate page_generate_no_file page_generate_fields sidebar_fields)

lemma run_generate_sandbox_passed:
  "step s = 2 \<Longrightarrow> sandbox_passed (run e w s) = sandbox_passed s"
  by (cases "secrets e")
    (simp_all add: run_generate page_generate_no_file page_generate_fields sidebar_fields)

lemma run_generate_code:
  "step s = 2 \<Longrightarrow> step (run e w s) = 3 \<Longrightarrow> generated_code (run e w s) \<noteq> None"
  by (cases "secrets e")
    (simp_all add: run_generate page_generate_no_file page_generate_fields sidebar_fields)

lemma page_review_fields:
  "step (snd (page_review w s)) =
     (if generated_code s = None then step s
      else if btn_back w then 1 else if btn_test_in_sandbox w then 4 else step s)"
  "sandbox_passed (snd (page_review w s)) = sandbox_passed s"
  "generated_code (snd (page_review w s)) = generated_code s"
  "api_doc_url (snd (page_review w s)) = api_doc_url s"
  "auth_method (snd (page_review w s)) = auth_method s"
  "ai_insights (snd (page_review w s)) = ai_insights s"
  by (simp_all add: page_review_def split: option.split)

lemma page_sandbox_fields:
  "step (snd (page_sandbox w s)) =
     (if btn_back_to_code w then 3
      else if (sandbox_passed s \<or> btn_run_all_tests w) \<and> btn_deploy_to_production w then 5
      else step s)"
  "sandbox_passed (snd (page_sandbox w s)) = (sandbox_passed s \<or> btn_run_all_tests w)"
  "generated_code (snd (page_sandbox w s)) = generated_code s"
  "api_doc_url (snd (page_sandbox w s)) = api_doc_url s"
  "auth_method (snd (page_sandbox w s)) = auth_method s"
  "ai_insights (snd (page_sandbox w s)) = ai_insights s"
  by (auto simp: page_sandbox_def Let_def)

lemma page_deploy_fields:
  "step (snd (page_deploy w s)) = (if btn_deploy w \<and> btn_start_new w then 1 else step s)"
  "sandbox_passed (snd (page_deploy w s)) =
     (if btn_deploy w \<and> btn_start_new w then False else sandbox_passed s)"
  "generated_code (snd (page_deploy w s)) =
     (if btn_deploy w \<and> btn_start_new w then None else generated_code s)"
  "api_doc_url (snd (page_deploy w s)) = api_doc_url s"
  "auth_method (snd (page_deploy w s)) = auth_method s"
  "ai_insights (snd (page_deploy w s)) = ai_insights s"
  by (simp_all add: page_deploy_def)

lemmas page_fields = sidebar_fields page_configure_fields page_review_fields
  page_sandbox_fields page_deploy_fields

lemmas run_pages = run_configure run_review run_sandbox run_deploy

lemma step_cases:
  "step s = 1 \<or> step s = 3 \<or> step s = 4 \<or> step s = 5 \<or>
   (step s \<noteq> 1 \<and> step s \<noteq> 2 \<and> step s \<noteq> 3 \<and> step s \<noteq> 4 \<and> step s \<noteq> 5) \<or> step s = 2"
  by blast

lemma gate_preserved:
  assumes "step s = 5 \<longrightarrow> sandbox_passed s"
  shows "step (run e w s) = 5 \<longrightarrow> sandbox_passed (run e w s)"
proof (cases "step s = 2")
  case True
  then show ?thesis
    using run_generate_step[OF True, of e w] by auto
next
  case False
  then show ?thesis
    using step_cases[of s] assms
    by (elim disjE conjE) (simp_all add: run_pages run_other page_fields split: if_splits)
qed

lemma reachable_gate: "reachable s \<Longrightarrow> step s = 5 \<longrightarrow> sandbox_passed s"
proof (induction rule: reachable.induct)
  case start
  show ?case by (simp add: initial_session_def)
next
  case (next_run s e w)
  then show ?case by (intro gate_preserved)
qed

lemma code_preserved:
  assumes "3 \<le> step s \<longrightarrow> generated_code s \<noteq> None"
  shows "3 \<le> step (run e w s) \<longrightarrow> generated_code (run e w s) \<noteq> None"
proof (cases "step s = 2")
  case True
  then show ?thesis
    using run_generate_step[OF True, of e w] run_generate_code[OF True, of e w] by auto
next
  case False
  then show ?thesis
    using step_cases[of s] assms
    by (elim disjE conjE) (auto simp: run_pages run_other page_fields split: if_splits)
qed

lemma reachable_code: "reachable s \<Longrightarrow> 3 \<le> step s \<longrightarrow> generated_code s \<noteq> None"
proof (induction rule: reachable.induct)
  case start
  show ?case by (simp add: initial_session_def)
next
  case (next_run s e w)
  then show ?case by (intro code_preserved)
qed

lemma at_review_eq:
  "at_review =
     \<lparr>step = 3, generated_code = Some demo_code_text, api_doc_url = default_doc_url,
      auth_method = ''OAuth 2.0'', sandbox_passed = False, ai_insights = demo_insights,
      anthropic_key = None\<rparr>"
  by (simp add: at_review_def run_def at_generate_eq pages clicks no_service_def
        demo_mode_with_secrets_file[of _ Map.empty] no_key_missing)

lemma at_sandbox_eq:
  "at_sandbox =
     \<lparr>step = 4, generated_code = Some demo_code_text, api_doc_url = default_doc_url,
      auth_method = ''OAuth 2.0'', sandbox_passed = False, ai_insights = demo_insights,
      anthropic_key = None\<rparr>"
  by (simp add: at_sandbox_def run_def at_review_eq pages clicks)

lemma tested_eq:
  "tested =
     \<lparr>step = 4, generated_code = Some demo_code_text, api_doc_url = default_doc_url,
      auth_method = ''OAuth 2.0'', sandbox_passed = True, ai_insights = demo_insights,
      anthropic_key = None\<rparr>"
  by (simp add: tested_def run_def at_sandbox_eq pages clicks)

lemma at_deploy_eq:
  "at_deploy =
     \<lparr>step = 5, generated_code = Some demo_code_text, api_doc_url = default_doc_url,
      auth_method = ''OAuth 2.0'', sandbox_passed = True, ai_insights = demo_insights,
      anthropic_key = None\<rparr>"
  by (simp add: at_deploy_def run_def tested_eq pages clicks)

lemma walk_reachable:
  "reachable at_generate" "reachable at_review" "reachable at_sandbox" "reachable tested"
  "reachable at_deploy"
  unfolding at_generate_def at_review_def at_sandbox_def tested_def at_deploy_def
  by (intro reachable.intros)+

section \<open>The gate before deployment\<close>

text \<open>
  C1. In every session that runs of the script reach from the initial session, whatever the
  widgets report and the service does, page 5 implies \<open>sandbox_passed\<close>. And on page 4 with
  \<open>sandbox_passed\<close> false, a run in which neither the test button nor the back button
  reports a click ends without a page change, whatever the forward button reports: the
  script draws it disabled and drops its value. Such a run writes nothing but the key
  field of the sidebar, and nothing at all if that field is empty.
\<close>

theorem deploy_gated_by_sandbox_passed:
  "(reachable s \<longrightarrow> step s = 5 \<longrightarrow> sandbox_passed s) \<and>
   (step s = 4 \<and> \<not> sandbox_passed s \<and> \<not> btn_run_all_tests w \<and> \<not> btn_back_to_code w \<longrightarrow>
      main e w s = (Completed, sidebar w s) \<and> (api_key_input w = [] \<longrightarrow> run e w s = s))"
proof (intro conjI impI)
  assume "reachable s" and "step s = 5"
  then show "sandbox_passed s"
    using reachable_gate by blast
next
  assume h: "step s = 4 \<and> \<not> sandbox_passed s \<and> \<not> btn_run_all_tests w \<and> \<not> btn_back_to_code w"
  then show m: "main e w s = (Completed, sidebar w s)"
    by (simp add: main_def page_sandbox_def sidebar_fields)
  assume "api_key_input w = []"
  with m show "run e w s = s"
    by (simp add: run_def sidebar_no_key)
qed

theorem deploy_gated_by_sandbox_passed_witness:
  "reachable at_deploy \<and> step at_deploy = 5 \<and> sandbox_passed at_deploy \<and>
   step at_sandbox = 4 \<and> \<not> sandbox_passed at_sandbox \<and>
   btn_deploy_to_production click_deploy_to_production \<and>
   \<not> btn_run_all_tests click_deploy_to_production \<and>
   \<not> btn_back_to_code click_deploy_to_production \<and>
   api_key_input click_deploy_to_production = [] \<and>
   main no_service click_deploy_to_production at_sandbox = (Completed, at_sandbox) \<and>
   run no_service click_deploy_to_production at_sandbox = at_sandbox"
proof -
  have r: "reachable at_deploy"
    by (rule walk_reachable)
  have h: "step at_sandbox = 4 \<and> \<not> sandbox_passed at_sandbox \<and>
           \<not> btn_run_all_tests click_deploy_to_production \<and>
           \<not> btn_back_to_code click_deploy_to_production"
    by (simp add: at_sandbox_eq clicks)
  have k: "api_key_input click_deploy_to_production = []"
    by (simp add: clicks)
  have b: "btn_deploy_to_production click_deploy_to_production"
    by (simp add: clicks)
  have s5: "step at_deploy = 5"
    by (simp add: at_deploy_eq)
  from deploy_gated_by_sandbox_passed[of at_deploy] r s5
  have p: "sandbox_passed at_deploy"
    by blast
  from deploy_gated_by_sandbox_passed[of at_sandbox click_deploy_to_production no_service] h k
  have "main no_service click_deploy_to_production at_sandbox =
       (Completed, sidebar click_deploy_to_production at_sandbox)" and
    "run no_service click_deploy_to_production at_sandbox = at_sandbox"
    by blast+
  with p have "sandbox_passed at_deploy \<and>
    main no_service click_deploy_to_production at_sandbox =
       (Completed, sidebar click_deploy_to_production at_sandbox) \<and>
    run no_service click_deploy_to_production at_sandbox = at_sandbox"
    by blast
  then show ?thesis
    using r s5 h k b by (simp add: sidebar_no_key)
qed

section \<open>Starting a new integration\<close>

text \<open>
  The handler of the button that starts a new integration assigns \<open>step\<close>,
  \<open>generated_code\<close> and \<open>sandbox_passed\<close>. It would run in a run of page 5 in which both
  the deploy button and the button inside its branch report a click.
\<close>

lemma start_new_handler:
  "step s = 5 \<and> btn_deploy w \<and> btn_start_new w \<longrightarrow>
     main e w s =
       (Rerun, (sidebar w s)\<lparr>step := 1, generated_code := None, sandbox_passed := False\<rparr>)"
  by (simp add: main_def page_deploy_def sidebar_fields)

text \<open>No run that Streamlit delivers is such a run: on page 5 a delivered run writes
  nothing but the key field of the sidebar.\<close>

lemma two_clicks: "2 \<le> length (filter id (xs @ [True, True]))"
  by simp

lemma not_both_page5_buttons:
  assumes "deliverable w"
  shows "\<not> (btn_deploy w \<and> btn_start_new w)"
proof
  assume b: "btn_deploy w \<and> btn_start_new w"
  then have "buttons w = take 11 (buttons w) @ [True, True]"
    by (simp add: buttons_def)
  then have "2 \<le> length (filter id (buttons w))"
    by (metis two_clicks)
  with assms show False
    by (simp add: deliverable_def)
qed

lemma delivered_run_on_page5:
  assumes "deliverable w" and "step s = 5"
  shows "main e w s = (Completed, sidebar w s)"
  using not_both_page5_buttons[OF assms(1)] assms(2)
  by (auto simp: main_def page_deploy_def sidebar_fields Let_def)

lemma deliverable_clicks:
  "deliverable idle" "deliverable click_deploy" "deliverable click_start_new"
  "deliverable click_back" "deliverable click_back_to_code"
  by (simp_all add: deliverable_def buttons_def clicks)

text \<open>
  C4. The action that starts a new integration is to set \<open>step\<close> to 1 and to clear the
  generated code and \<open>sandbox_passed\<close>; the handler in the script is written to do that.
  It never runs. On page 5 of the walk in demo mode the user clicks the deploy button:
  the run draws the inner button and changes nothing. The user clicks the inner button:
  in the run of this click the deploy button reports no click, its branch is skipped, and
  the session is what it was: still page 5, the generated code and \<open>sandbox_passed\<close>
  still there.
\<close>

theorem start_new_integration_changes_nothing:
  "step at_deploy = 5 \<and> generated_code at_deploy = Some demo_code_text \<and>
   sandbox_passed at_deploy \<and>
   deliverable click_deploy \<and> deliverable click_start_new \<and>
   action no_service click_deploy at_deploy = at_deploy \<and>
   main no_service click_start_new at_deploy = (Completed, at_deploy) \<and>
   action no_service click_start_new (action no_service click_deploy at_deploy) = at_deploy"
proof -
  have s: "step at_deploy = 5 \<and> generated_code at_deploy = Some demo_code_text \<and>
           sandbox_passed at_deploy"
    by (simp add: at_deploy_eq)
  have k: "sidebar click_deploy at_deploy = at_deploy"
          "sidebar click_start_new at_deploy = at_deploy"
    by (simp_all add: sidebar_no_key clicks)
  have m1: "main no_service click_deploy at_deploy = (Completed, at_deploy)"
    using delivered_run_on_page5[OF deliverable_clicks(2), of at_deploy no_service] s k by simp
  have m2: "main no_service click_start_new at_deploy = (Completed, at_deploy)"
    using delivered_run_on_page5[OF deliverable_clicks(3), of at_deploy no_service] s k by simp
  have a1: "action no_service click_deploy at_deploy = at_deploy"
    by (simp add: action_def m1)
  have a2: "action no_service click_start_new at_deploy = at_deploy"
    by (simp add: action_def m2)
  show ?thesis
    using s deliverable_clicks(2,3) m2 by (simp add: a1 a2)
qed

section \<open>Leaving the configuration page\<close>

text \<open>
  C5, as the claim states it, fails. With the URL field empty, the forward click on page 1
  is not rejected: the run ends with \<open>st.rerun()\<close> on page 2, with the empty text as
  \<open>api_doc_url\<close>. The script has no test of the field.
\<close>

theorem configure_accepts_empty_url:
  "step initial_session = 1 \<and> api_doc_url_input click_generate_empty_url = [] \<and>
   btn_generate click_generate_empty_url \<and>
   main no_service click_generate_empty_url initial_session =
     (Rerun, initial_session\<lparr>step := 2\<rparr>)"
  by (simp add: pages clicks initial_session_def)

text \<open>
  C5 as amended. The forward action on page 1 has no validation at all: for every content
  of the URL field, the empty one included, the run stores the content in \<open>api_doc_url\<close>,
  moves to page 2 and ends with \<open>st.rerun()\<close>.
\<close>

theorem configure_forward_unconditional:
  "step s = 1 \<and> btn_generate w \<longrightarrow>
     fst (main e w s) = Rerun \<and> step (run e w s) = 2 \<and>
     api_doc_url (run e w s) = api_doc_url_input w"
  by (simp add: run_def main_def page_configure_def sidebar_fields Let_def)

theorem configure_forward_unconditional_witness:
  "step initial_session = 1 \<and> btn_generate click_generate \<and>
   fst (main no_service click_generate initial_session) = Rerun \<and>
   step (run no_service click_generate initial_session) = 2 \<and>
   api_doc_url (run no_service click_generate initial_session) = default_doc_url"
proof -
  have h: "step initial_session = 1 \<and> btn_generate click_generate"
    by (simp add: initial_session_def clicks)
  from configure_forward_unconditional[of initial_session click_generate no_service] h
  have "fst (main no_service click_generate initial_session) = Rerun \<and>
        step (run no_service click_generate initial_session) = 2 \<and>
        api_doc_url (run no_service click_generate initial_session) =
          api_doc_url_input click_generate"
    by blast
  then show ?thesis
    using h by (simp add: clicks)
qed

section \<open>The direction of the steps\<close>

text \<open>
  C9, as the claim states it, fails. The back button of page 3 takes the session from page
  3 to page 1 and the back button of page 4 takes it from page 4 to page 3; neither run is
  the one that starts a new integration.
\<close>

theorem back_buttons_decrease_step:
  "step at_review = 3 \<and> step (run no_service click_back at_review) = 1 \<and>
   \<not> btn_start_new click_back \<and>
   step tested = 4 \<and> step (run no_service click_back_to_code tested) = 3 \<and>
   \<not> btn_start_new click_back_to_code"
  by (simp add: at_review_eq tested_eq run_def pages clicks)

text \<open>
  C9 as amended. A run lowers \<open>step\<close> in three cases only: the back button of page 3 (from
  3 to 1), the back button of page 4 (from 4 to 3), and the start of a new integration
  (from 5 to 1). In every other run the resulting step is greater than or equal to the
  step before.
\<close>

theorem step_decreases_only_by_back_or_reset:
  "step (run e w s) < step s \<longrightarrow>
     (step s = 3 \<and> btn_back w \<and> step (run e w s) = 1) \<or>
     (step s = 4 \<and> btn_back_to_code w \<and> step (run e w s) = 3) \<or>
     (step s = 5 \<and> btn_deploy w \<and> btn_start_new w \<and> step (run e w s) = 1)"
proof (cases "step s = 2")
  case True
  then show ?thesis
    using run_generate_step[OF True, of e w] by auto
next
  case False
  then show ?thesis
    using step_cases[of s]
    by (elim disjE conjE) (auto simp: run_pages run_other page_fields split: if_splits)
qed

theorem step_decreases_only_by_back_or_reset_witness:
  "step (run no_service click_back_to_code tested) < step tested \<and>
   step tested = 4 \<and> btn_back_to_code click_back_to_code \<and>
   step (run no_service click_back_to_code tested) = 3"
proof -
  have h: "step (run no_service click_back_to_code tested) < step tested"
    by (simp add: tested_eq run_def pages clicks)
  have n: "step tested \<noteq> 3 \<and> step tested \<noteq> 5"
    by (simp add: tested_eq)
  from step_decreases_only_by_back_or_reset[of no_service click_back_to_code tested] h n
  have "step tested = 4 \<and> btn_back_to_code click_back_to_code \<and>
        step (run no_service click_back_to_code tested) = 3"
    by blast
  with h show ?thesis by blast
qed

section \<open>Going back\<close>

text \<open>A forced run, and any other run without a click, on pages 3, 4 and 5 writes
  nothing but the key field.\<close>

lemma rerun_widgets_quiet:
  "\<not> btn_back (rerun_widgets w)" "\<not> btn_test_in_sandbox (rerun_widgets w)"
  "\<not> btn_run_all_tests (rerun_widgets w)" "\<not> btn_back_to_code (rerun_widgets w)"
  "\<not> btn_deploy_to_production (rerun_widgets w)" "\<not> btn_deploy (rerun_widgets w)"
  "\<not> btn_generate (rerun_widgets w)" "\<not> btn_oauth (rerun_widgets w)"
  "\<not> btn_api_key (rerun_widgets w)" "\<not> btn_bearer_token (rerun_widgets w)"
  "\<not> btn_auto_detect (rerun_widgets w)"
  "api_doc_url_input (rerun_widgets w) = default_doc_url"
  "api_key_input (rerun_widgets w) = api_key_input w"
  by (simp_all add: rerun_widgets_def idle_def)

lemma sidebar_rerun: "sidebar (rerun_widgets w) (sidebar w s) = sidebar w s"
  by (simp add: sidebar_def rerun_widgets_quiet)

lemma forced_run_fields:
  assumes "step s = 3 \<or> step s = 4"
  shows "step (run e (rerun_widgets w) s) = step s"
    and "generated_code (run e (rerun_widgets w) s) = generated_code s"
    and "sandbox_passed (run e (rerun_widgets w) s) = sandbox_passed s"
    and "ai_insights (run e (rerun_widgets w) s) = ai_insights s"
    and "api_doc_url (run e (rerun_widgets w) s) = api_doc_url s"
    and "auth_method (run e (rerun_widgets w) s) = auth_method s"
  using assms
  by (auto simp: run_review run_sandbox page_fields rerun_widgets_quiet)

lemma forced_run_page1:
  assumes "step s = 1"
  shows "step (run e (rerun_widgets w) s) = 1"
    and "generated_code (run e (rerun_widgets w) s) = generated_code s"
    and "sandbox_passed (run e (rerun_widgets w) s) = sandbox_passed s"
    and "ai_insights (run e (rerun_widgets w) s) = ai_insights s"
    and "api_doc_url (run e (rerun_widgets w) s) = default_doc_url"
    and "auth_method (run e (rerun_widgets w) s) = auth_method s"
  using assms
  by (simp_all add: run_def main_def sidebar_fields page_configure_def Let_def
        rerun_widgets_quiet)

lemma main_back:
  assumes "step s = 3" and "btn_back w" and "generated_code s \<noteq> None"
  shows "main e w s = (Rerun, (sidebar w s)\<lparr>step := 1\<rparr>)"
  using assms by (auto simp: main_def page_review_def sidebar_fields)

lemma main_back_to_code:
  assumes "step s = 4" and "btn_back_to_code w" and "\<not> btn_run_all_tests w"
  shows "main e w s = (Rerun, (sidebar w s)\<lparr>step := 3\<rparr>)"
  using assms by (simp add: main_def page_sandbox_def sidebar_fields)

lemma back_action:
  assumes "step s = 3" and "btn_back w" and "generated_code s \<noteq> None"
  shows "step (action e w s) = 1 \<and>
         generated_code (action e w s) = generated_code s \<and>
         sandbox_passed (action e w s) = sandbox_passed s \<and>
         ai_insights (action e w s) = ai_insights s \<and>
         auth_method (action e w s) = auth_method s \<and>
         api_doc_url (action e w s) = default_doc_url"
  unfolding action_def main_back[OF assms]
  by (simp add: forced_run_page1 sidebar_fields)

lemma back_to_code_action:
  assumes "step s = 4" and "btn_back_to_code w" and "\<not> btn_run_all_tests w"
  shows "step (action e w s) = 3 \<and>
         generated_code (action e w s) = generated_code s \<and>
         sandbox_passed (action e w s) = sandbox_passed s \<and>
         ai_insights (action e w s) = ai_insights s \<and>
         api_doc_url (action e w s) = api_doc_url s \<and>
         auth_method (action e w s) = auth_method s"
  unfolding action_def main_back_to_code[OF assms]
  by (simp add: forced_run_fields sidebar_fields)

lemma back_to_code_keeps:
  assumes "step s = 4" and "btn_back_to_code w" and "\<not> btn_run_all_tests w"
  shows "step (run e w s) = 3 \<and>
         generated_code (run e w s) = generated_code s \<and>
         sandbox_passed (run e w s) = sandbox_passed s"
  using assms by (simp add: run_sandbox page_fields)

lemma sandbox_passed_kept:
  assumes "sandbox_passed s" and "\<not> (step s = 5 \<and> btn_deploy w \<and> btn_start_new w)"
  shows "sandbox_passed (run e w s)"
proof (cases "step s = 2")
  case True
  then show ?thesis
    using assms(1) by (simp add: run_generate_sandbox_passed)
next
  case False
  then show ?thesis
    using step_cases[of s] assms
    by (elim disjE conjE) (auto simp: run_pages run_other page_fields split: if_splits)
qed

lemma back_and_forth:
  assumes "reachable s" and "step s = 4" and "sandbox_passed s"
    and "btn_back_to_code w1" and "\<not> btn_run_all_tests w1"
    and "\<not> btn_back w2" and "btn_test_in_sandbox w2"
    and "\<not> btn_back_to_code w3" and "\<not> btn_run_all_tests w3" and "btn_deploy_to_production w3"
  shows "step (run e3 w3 (run e2 w2 (run e1 w1 s))) = 5"
proof -
  let ?s1 = "run e1 w1 s" and ?s2 = "run e2 w2 (run e1 w1 s)"
  have code: "generated_code s \<noteq> None"
    using reachable_code[OF assms(1)] assms(2) by simp
  have s1: "step ?s1 = 3 \<and> generated_code ?s1 = generated_code s \<and> sandbox_passed ?s1"
    using back_to_code_keeps[OF assms(2) assms(4) assms(5), of e1] assms(3) by simp
  then have s2: "step ?s2 = 4 \<and> sandbox_passed ?s2"
    using code assms(6,7) by (simp add: run_review page_fields)
  then show ?thesis
    using assms(8,10) by (simp add: run_sandbox page_fields)
qed

lemma typed_review_eq:
  "typed_review =
     \<lparr>step = 3, generated_code = Some demo_code_text, api_doc_url = typed_url,
      auth_method = ''OAuth 2.0'', sandbox_passed = False, ai_insights = demo_insights,
      anthropic_key = None\<rparr>"
proof -
  let ?g = "\<lparr>step = 2, generated_code = None, api_doc_url = typed_url,
      auth_method = ''OAuth 2.0'', sandbox_passed = False, ai_insights = [],
      anthropic_key = None\<rparr>"
  let ?c = "\<lparr>step = 2, generated_code = Some demo_code_text, api_doc_url = typed_url,
      auth_method = ''OAuth 2.0'', sandbox_passed = False, ai_insights = demo_insights,
      anthropic_key = None\<rparr>"
  let ?r = "\<lparr>step = 3, generated_code = Some demo_code_text, api_doc_url = typed_url,
      auth_method = ''OAuth 2.0'', sandbox_passed = False, ai_insights = demo_insights,
      anthropic_key = None\<rparr>"
  have g: "generate_integration_code no_service d m l s =
             Inr (demo_code_text, s\<lparr>ai_insights := demo_insights\<rparr>)"
    if "anthropic_key s = None" for d m l s
    using that
    by (intro demo_mode_with_secrets_file[of _ Map.empty]) (simp_all add: no_service_def no_key_missing)
  have 1: "main no_service click_generate_typed_url initial_session = (Rerun, ?g)"
    by (simp add: pages clicks initial_session_def)
  have 2: "main no_service (rerun_widgets click_generate_typed_url) ?g = (Completed, ?c)"
    by (simp add: pages rerun_widgets_def clicks g)
  have 3: "main no_service click_review ?c = (Rerun, ?r)"
    by (simp add: pages clicks g)
  have 4: "main no_service (rerun_widgets click_review) ?r = (Completed, ?r)"
    by (simp add: pages rerun_widgets_def clicks)
  have a: "action no_service click_generate_typed_url initial_session = ?c"
    by (simp add: action_def run_def 1 2)
  have b: "action no_service click_review ?c = ?r"
    by (simp add: action_def run_def 3 4)
  show ?thesis
    unfolding typed_review_def a b ..
qed

text \<open>
  C10, as the claim states it, fails for the back button of page 3. A user types a URL on
  page 1 and goes forward to page 3. The click on the back button sets \<open>step\<close> to 1 and
  calls \<open>st.rerun()\<close>; the run this forces draws page 1, whose URL field is created anew
  with its preset, and the script stores the field in \<open>api_doc_url\<close> on every run of
  page 1. After the action \<open>api_doc_url\<close> is the preset and not the typed URL.
\<close>

theorem back_from_review_overwrites_url:
  "step typed_review = 3 \<and> api_doc_url typed_review = typed_url \<and>
   deliverable click_back \<and> btn_back click_back \<and>
   step (action no_service click_back typed_review) = 1 \<and>
   api_doc_url (action no_service click_back typed_review) = default_doc_url \<and>
   default_doc_url \<noteq> typed_url"
proof -
  have s: "step typed_review = 3 \<and> api_doc_url typed_review = typed_url \<and>
           generated_code typed_review \<noteq> None"
    by (simp add: typed_review_eq)
  have b: "btn_back click_back"
    by (simp add: clicks)
  have n: "default_doc_url \<noteq> typed_url"
    by (simp add: default_doc_url_def typed_url_def)
  from back_action[of typed_review click_back no_service] s b
  have "step (action no_service click_back typed_review) = 1 \<and>
        api_doc_url (action no_service click_back typed_review) = default_doc_url"
    by blast
  with s b n deliverable_clicks(4) show ?thesis by blast
qed

text \<open>
  C10 as amended. An action is the run of a click together with the run that its
  \<open>st.rerun()\<close> forces. The back button of page 4, in a run in which the test button
  reports no click, changes \<open>step\<close> to 3 and leaves \<open>generated_code\<close>, \<open>sandbox_passed\<close>,
  \<open>ai_insights\<close>, \<open>api_doc_url\<close> and \<open>auth_method\<close> as they were. The back button of page 3
  changes \<open>step\<close> to 1 and leaves \<open>generated_code\<close>, \<open>sandbox_passed\<close>, \<open>ai_insights\<close> and
  \<open>auth_method\<close> as they were, while \<open>api_doc_url\<close> becomes the preset of the URL field.
  Once \<open>sandbox_passed\<close> holds it holds after every run but the one that starts a new
  integration. And from a reachable session on page 4 with \<open>sandbox_passed\<close>, going back
  to page 3, forward to page 4 and forward again reaches page 5 without a click on the
  test button.
\<close>

theorem back_navigation_keeps_gate:
  "(step s = 3 \<and> btn_back w \<and> generated_code s \<noteq> None \<longrightarrow>
      step (action e w s) = 1 \<and>
      generated_code (action e w s) = generated_code s \<and>
      sandbox_passed (action e w s) = sandbox_passed s \<and>
      ai_insights (action e w s) = ai_insights s \<and>
      auth_method (action e w s) = auth_method s \<and>
      api_doc_url (action e w s) = default_doc_url) \<and>
   (step s = 4 \<and> btn_back_to_code w \<and> \<not> btn_run_all_tests w \<longrightarrow>
      step (action e w s) = 3 \<and>
      generated_code (action e w s) = generated_code s \<and>
      sandbox_passed (action e w s) = sandbox_passed s \<and>
      ai_insights (action e w s) = ai_insights s \<and>
      api_doc_url (action e w s) = api_doc_url s \<and>
      auth_method (action e w s) = auth_method s) \<and>
   (sandbox_passed s \<and> \<not> (step s = 5 \<and> btn_deploy w \<and> btn_start_new w) \<longrightarrow>
      sandbox_passed (run e w s)) \<and>
   (reachable s \<and> step s = 4 \<and> sandbox_passed s \<and>
    btn_back_to_code w1 \<and> \<not> btn_run_all_tests w1 \<and>
    \<not> btn_back w2 \<and> btn_test_in_sandbox w2 \<and>
    \<not> btn_back_to_code w3 \<and> \<not> btn_run_all_tests w3 \<and> btn_deploy_to_production w3 \<longrightarrow>
      step (run e3 w3 (run e2 w2 (run e1 w1 s))) = 5)"
  using back_action[of s w e] back_to_code_action[of s w e] sandbox_passed_kept[of s w e]
    back_and_forth[of s w1 w2 w3 e3 e2 e1]
  by blast

theorem back_navigation_keeps_gate_witness:
  "step typed_review = 3 \<and> btn_back click_back \<and> generated_code typed_review \<noteq> None \<and>
   step (action no_service click_back typed_review) = 1 \<and>
   generated_code (action no_service click_back typed_review) = Some demo_code_text \<and>
   sandbox_passed (action no_service click_back typed_review) = False \<and>
   ai_insights (action no_service click_back typed_review) = demo_insights \<and>
   auth_method (action no_service click_back typed_review) = ''OAuth 2.0'' \<and>
   api_doc_url (action no_service click_back typed_review) = default_doc_url \<and>
   reachable tested \<and> step tested = 4 \<and> sandbox_passed tested \<and>
   btn_back_to_code click_back_to_code \<and> \<not> btn_run_all_tests click_back_to_code \<and>
   step (action no_service click_back_to_code tested) = 3 \<and>
   generated_code (action no_service click_back_to_code tested) = Some demo_code_text \<and>
   sandbox_passed (action no_service click_back_to_code tested) = True \<and>
   ai_insights (action no_service click_back_to_code tested) = demo_insights \<and>
   api_doc_url (action no_service click_back_to_code tested) = default_doc_url \<and>
   auth_method (action no_service click_back_to_code tested) = ''OAuth 2.0'' \<and>
   sandbox_passed (run no_service click_back_to_code tested) \<and>
   \<not> btn_back click_test_in_sandbox \<and> btn_test_in_sandbox click_test_in_sandbox \<and>
   \<not> btn_back_to_code click_deploy_to_production \<and>
   \<not> btn_run_all_tests click_deploy_to_production \<and>
   btn_deploy_to_production click_deploy_to_production \<and>
   step (run no_service click_deploy_to_production
          (run no_service click_test_in_sandbox
            (run no_service click_back_to_code tested))) = 5"
proof -
  have a: "step typed_review = 3 \<and> btn_back click_back \<and> generated_code typed_review \<noteq> None"
    by (simp add: typed_review_eq clicks)
  have b: "step tested = 4 \<and> btn_back_to_code click_back_to_code \<and>
           \<not> btn_run_all_tests click_back_to_code"
    by (simp add: tested_eq clicks)
  have c: "sandbox_passed tested \<and>
           \<not> (step tested = 5 \<and> btn_deploy click_back_to_code \<and> btn_start_new click_back_to_code)"
    by (simp add: tested_eq clicks)
  have d: "reachable tested \<and> step tested = 4 \<and> sandbox_passed tested \<and>
    btn_back_to_code click_back_to_code \<and> \<not> btn_run_all_tests click_back_to_code \<and>
    \<not> btn_back click_test_in_sandbox \<and> btn_test_in_sandbox click_test_in_sandbox \<and>
    \<not> btn_back_to_code click_deploy_to_production \<and>
    \<not> btn_run_all_tests click_deploy_to_production \<and>
    btn_deploy_to_production click_deploy_to_production"
    using walk_reachable(4) by (simp add: tested_eq clicks)
  from back_navigation_keeps_gate[of typed_review click_back no_service] a
  have 1: "step (action no_service click_back typed_review) = 1 \<and>
      generated_code (action no_service click_back typed_review) = generated_code typed_review \<and>
      sandbox_passed (action no_service click_back typed_review) = sandbox_passed typed_review \<and>
      ai_insights (action no_service click_back typed_review) = ai_insights typed_review \<and>
      auth_method (action no_service click_back typed_review) = auth_method typed_review \<and>
      api_doc_url (action no_service click_back typed_review) = default_doc_url"
    by blast
  from back_navigation_keeps_gate[of tested click_back_to_code no_service
      click_back_to_code click_test_in_sandbox click_deploy_to_production
      no_service no_service no_service] b c d
  have 2: "step (action no_service click_back_to_code tested) = 3 \<and>
      generated_code (action no_service click_back_to_code tested) = generated_code tested \<and>
      sandbox_passed (action no_service click_back_to_code tested) = sandbox_passed tested \<and>
      ai_insights (action no_service click_back_to_code tested) = ai_insights tested \<and>
      api_doc_url (action no_service click_back_to_code tested) = api_doc_url tested \<and>
      auth_method (action no_service click_back_to_code tested) = auth_method tested"
    and 3: "sandbox_passed (run no_service click_back_to_code tested)"
    and 4: "step (run no_service click_deploy_to_production
          (run no_service click_test_in_sandbox
            (run no_service click_back_to_code tested))) = 5"
    by blast+
  have r: "generated_code typed_review = Some demo_code_text \<and> \<not> sandbox_passed typed_review \<and>
      ai_insights typed_review = demo_insights \<and> auth_method typed_review = ''OAuth 2.0''"
    by (simp add: typed_review_eq)
  have t: "generated_code tested = Some demo_code_text \<and>
      ai_insights tested = demo_insights \<and> api_doc_url tested = default_doc_url \<and>
      auth_method tested = ''OAuth 2.0''"
    by (simp add: tested_eq)
  from a d 1 2 3 4 r t show ?thesis
    by simp
qed


end
